theory Spec2Isabelle
  imports Main
begin

section \<open>Paths, as pathlib presents them on a POSIX host\<close>

text \<open>
  The source works with \<^verbatim>\<open>pathlib.Path\<close> objects. A pure POSIX path is an anchor
  (the empty string, one slash, or exactly two slashes) and the list of its segments;
  parsing a string drops empty segments and single dots. Characters are bytes here, so
  the model speaks about ASCII file names.
\<close>

fun split_slash :: "string \<Rightarrow> string list" where
  "split_slash [] = [[]]"
| "split_slash (c # cs) =
     (if c = CHR ''/'' then [] # split_slash cs
      else (case split_slash cs of [] \<Rightarrow> [[c]] | seg # segs \<Rightarrow> (c # seg) # segs))"

fun join_slash :: "string list \<Rightarrow> string" where
  "join_slash [] = []"
| "join_slash [p] = p"
| "join_slash (p # q # ps) = p @ ''/'' @ join_slash (q # ps)"

record ppath =
  anchor :: string
  segs :: "string list"

definition Path :: "string \<Rightarrow> ppath" where
  "Path s =
     \<lparr>anchor = (if take 2 s = ''//'' \<and> take 3 s \<noteq> ''///'' then ''//''
                else if take 1 s = ''/'' then ''/'' else []),
      segs = filter (\<lambda>p. p \<noteq> [] \<and> p \<noteq> ''.'') (split_slash s)\<rparr>"

text \<open>\<^verbatim>\<open>str(path)\<close>: the normalised spelling, a single dot for the empty path.\<close>

definition str :: "ppath \<Rightarrow> string" where
  "str p = (if anchor p = [] \<and> segs p = [] then ''.'' else anchor p @ join_slash (segs p))"

text \<open>\<^verbatim>\<open>path.name\<close>: the last segment, the empty string when there is none.\<close>

definition name :: "string list \<Rightarrow> string" where
  "name parts = (if parts = [] then [] else last parts)"

definition parent :: "ppath \<Rightarrow> ppath" where
  "parent p = p\<lparr>segs := butlast (segs p)\<rparr>"

text \<open>\<^verbatim>\<open>relative_path.as_posix()\<close> of a relative path given by its parts.\<close>

definition as_posix :: "string list \<Rightarrow> string" where
  "as_posix parts = (if parts = [] then ''.'' else join_slash parts)"

section \<open>Shell-style matching (the standard library's fnmatch)\<close>

text \<open>
  \<^verbatim>\<open>fnmatch(name, pattern)\<close> on a POSIX host compares case-sensitively. The pattern is
  translated item by item as \<^verbatim>\<open>fnmatch.translate\<close> does: a star matches any run of
  characters (slashes included), a question mark one character, a bracket expression
  one character of a set, and an opening bracket that is never closed stands for
  itself. Characters are bytes, so the model is that of ASCII names and patterns.

  The set of a bracket expression is read as the library reads it. A hyphen is a range
  sign when it is found by the library's search: the search starts after the first
  member (after the first two characters when the set starts with an exclamation
  mark), resumes three characters after each hyphen found, and a hyphen in the last
  place is a member. A range whose lower end exceeds its upper end is removed with
  both its ends. The set is negated when what is left starts with an exclamation mark.
  What is left is then read as the regular-expression engine reads a set: a member,
  a range sign and a further member make a range, anything else is a member.
\<close>

datatype glob_item = Star | AnyChar | Lit char | CharClass bool "(char \<times> char) list"

datatype set_token = Member char | Through

fun mark :: "nat \<Rightarrow> string \<Rightarrow> set_token list" where
  "mark k [] = []"
| "mark (Suc k) (c # cs) = Member c # mark k cs"
| "mark 0 (c # cs) =
     (if c = CHR ''-'' then (if cs = [] then [Member c] else Through # mark 2 cs)
      else Member c # mark 0 cs)"

fun drop_empty_ranges :: "set_token list \<Rightarrow> set_token list" where
  "drop_empty_ranges (Member a # Through # Member b # rest) =
     (if (of_char a :: nat) > of_char b then drop_empty_ranges rest
      else Member a # Through # Member b # drop_empty_ranges rest)"
| "drop_empty_ranges (t # rest) = t # drop_empty_ranges rest"
| "drop_empty_ranges [] = []"

fun token_char :: "set_token \<Rightarrow> char" where
  "token_char (Member c) = c"
| "token_char Through = CHR ''-''"

fun set_ranges :: "set_token list \<Rightarrow> (char \<times> char) list" where
  "set_ranges (t # Through # u # rest) = (token_char t, token_char u) # set_ranges rest"
| "set_ranges (t # rest) = (token_char t, token_char t) # set_ranges rest"
| "set_ranges [] = []"

definition char_class :: "string \<Rightarrow> glob_item" where
  "char_class stuff =
     (let tokens = drop_empty_ranges (mark (if take 1 stuff = ''!'' then 2 else 1) stuff)
      in if take 1 tokens = [Member CHR ''!''] then CharClass True (set_ranges (drop 1 tokens))
         else CharClass False (set_ranges tokens))"

function translate :: "string \<Rightarrow> glob_item list" where
  "translate [] = []"
| "translate (c # pat) =
     (if c = CHR ''*'' then Star # translate pat
      else if c = CHR ''?'' then AnyChar # translate pat
      else if c = CHR ''['' then
        (let j0 = (if take 1 pat = ''!'' then 1 else 0);
             j1 = (if take 1 (drop j0 pat) = '']'' then j0 + 1 else j0);
             j = j1 + length (takeWhile (\<lambda>x. x \<noteq> CHR '']'') (drop j1 pat))
         in if j \<ge> length pat then Lit CHR ''['' # translate pat
            else char_class (take j pat) # translate (drop (Suc j) pat))
      else Lit c # translate pat)"
  by pat_completeness auto
termination
  by (relation "measure length") auto

definition in_class :: "(char \<times> char) list \<Rightarrow> char \<Rightarrow> bool" where
  "in_class ranges c =
     list_ex (\<lambda>(lo, hi). (of_char lo :: nat) \<le> of_char c \<and> (of_char c :: nat) \<le> of_char hi) ranges"

fun item_matches :: "glob_item \<Rightarrow> char \<Rightarrow> bool" where
  "item_matches Star c = True"
| "item_matches AnyChar c = True"
| "item_matches (Lit d) c = (c = d)"
| "item_matches (CharClass negated ranges) c = (negated \<noteq> in_class ranges c)"

fun glob_match :: "glob_item list \<Rightarrow> string \<Rightarrow> bool" where
  "glob_match [] s = (s = [])"
| "glob_match (Star # items) [] = glob_match items []"
| "glob_match (Star # items) (c # s) = (glob_match items (c # s) \<or> glob_match (Star # items) s)"
| "glob_match (item # items) [] = False"
| "glob_match (item # items) (c # s) = (item_matches item c \<and> glob_match items s)"

definition fnmatch :: "string \<Rightarrow> string \<Rightarrow> bool" where
  "fnmatch nm pattern = glob_match (translate pattern) nm"

section \<open>The exclusion test of the archive builder\<close>

definition DEFAULT_EXCLUDE_PATTERNS :: "string list" where
  "DEFAULT_EXCLUDE_PATTERNS =
     [''.git'', ''.gitmodules'', ''.github'', ''.cache'', ''.mypy_cache'', ''.pytest_cache'',
      ''.venv'', ''venv'', ''.env'', ''.env.local'', ''node_modules'', ''.next'', ''.vercel'',
      ''__pycache__'', ''*.pyc'', ''*.pyo'', ''*.pyd'', ''*.log'', ''*.tmp'', ''*.swp'',
      ''.DS_Store'', ''dist'', ''build'', ''coverage'']"

text \<open>
  \<^verbatim>\<open>any(token in pattern for token in ("*", "?", "[", "]"))\<close>: each token is one
  character, so the substring test is a membership test.
\<close>

definition has_glob :: "string \<Rightarrow> bool" where
  "has_glob pattern = list_ex (\<lambda>token. token \<in> set pattern) ''*?[]''"

text \<open>
  \<^verbatim>\<open>should_exclude\<close>, the closure of \<^verbatim>\<open>create_source_archive\<close>, with the rule list it
  captures as first argument and the candidate given by the parts of its path relative
  to the source root. The loop is the recursion over the rule list: a plain rule that
  is not among the parts continues with the next rule. \<^verbatim>\<open>rglob\<close> never lists the root
  itself, so the parts are not empty and \<^verbatim>\<open>file_path.name\<close> is the last of them.
\<close>

fun should_exclude :: "string list \<Rightarrow> string list \<Rightarrow> bool" where
  "should_exclude [] parts = False"
| "should_exclude (pattern # exclude_patterns) parts =
     (if \<not> has_glob pattern then
        (if pattern \<in> set parts then True else should_exclude exclude_patterns parts)
      else if fnmatch (name parts) pattern \<or> fnmatch (as_posix parts) pattern then True
      else should_exclude exclude_patterns parts)"

text \<open>What one rule decides about one candidate, in the words of the specification.\<close>

definition rule_matches :: "string \<Rightarrow> string list \<Rightarrow> bool" where
  "rule_matches rule parts =
     (if has_glob rule then fnmatch (name parts) rule \<or> fnmatch (as_posix parts) rule
      else rule \<in> set parts)"

section \<open>Exceptions, JSON values and the outside world\<close>

text \<open>
  An exception is its class and its message; a function that can raise returns a sum
  with the exception on the left. Only the classes that the code raises, catches or
  lets through are listed.
\<close>

datatype exn_class =
  ValueError | RuntimeError | FileNotFoundError | AttributeError | KeyError
  | RequestException | OSError | OtherException

datatype exn = Exn exn_class string

fun exn_kind :: "exn \<Rightarrow> exn_class" where
  "exn_kind (Exn k m) = k"

fun str_exn :: "exn \<Rightarrow> string" where
  "str_exn (Exn k m) = m"

datatype jvalue =
  JNull | JBool bool | JNum int | JStr string | JArr "jvalue list" | JObj "(string \<times> jvalue) list"

text \<open>Truth value of a decoded JSON value, as \<^verbatim>\<open>not access_token\<close> tests it.\<close>

fun truthy :: "jvalue \<Rightarrow> bool" where
  "truthy JNull = False"
| "truthy (JBool b) = b"
| "truthy (JNum n) = (n \<noteq> 0)"
| "truthy (JStr s) = (s \<noteq> [])"
| "truthy (JArr xs) = (xs \<noteq> [])"
| "truthy (JObj kvs) = (kvs \<noteq> [])"

text \<open>\<^verbatim>\<open>token_data.get(key)\<close>: only a dictionary has the method.\<close>

fun dict_get :: "jvalue \<Rightarrow> string \<Rightarrow> exn + jvalue" where
  "dict_get (JObj kvs) k = Inr (case map_of kvs k of None \<Rightarrow> JNull | Some v \<Rightarrow> v)"
| "dict_get v k = Inl (Exn AttributeError ''object has no attribute get'')"

text \<open>Truth value of an optional string: neither \<^verbatim>\<open>None\<close> nor empty.\<close>

fun present :: "string option \<Rightarrow> bool" where
  "present None = False"
| "present (Some s) = (s \<noteq> [])"

text \<open>
  The two credential classes of the IBM SDK, as the source constructs them:
  \<^verbatim>\<open>IAMAuthenticator(apikey=...)\<close> keeps the key in its token manager, and
  \<^verbatim>\<open>BearerTokenAuthenticator(bearer_token=...)\<close> keeps the token and has no token
  manager.
\<close>

datatype authenticator = IAMAuthenticator string | BearerTokenAuthenticator jvalue

text \<open>
  The constructors validate what they are given. The one for the API key raises
  \<^verbatim>\<open>ValueError\<close> for a key that starts with an opening brace or a double quote, or
  ends with a closing brace or a double quote (the character with code 34). The one
  for the bearer token raises only for a missing token, and the source calls it after
  it has tested the token for truth, so that call always returns.
\<close>

definition has_bad_first_or_last_char :: "string \<Rightarrow> bool" where
  "has_bad_first_or_last_char v =
     (v \<noteq> [] \<and> (hd v = CHR ''{'' \<or> hd v = CHR 0x22 \<or> last v = CHR ''}'' \<or> last v = CHR 0x22))"

definition bad_apikey_message :: string where
  "bad_apikey_message =
     ''The apikey shouldn'' @ [CHR 0x27] @ ''t start or end with curly brackets or quotes. ''
     @ ''Please remove any surrounding {, }, or '' @ [CHR 0x22] @ '' characters.''"

definition new_IAMAuthenticator :: "string \<Rightarrow> exn + authenticator" where
  "new_IAMAuthenticator apikey =
     (if has_bad_first_or_last_char apikey then Inl (Exn ValueError bad_apikey_message)
      else Inr (IAMAuthenticator apikey))"

text \<open>The attribute path \<^verbatim>\<open>authenticator.token_manager.apikey\<close>.\<close>

fun token_manager_apikey :: "authenticator \<Rightarrow> exn + string" where
  "token_manager_apikey (IAMAuthenticator apikey) = Inr apikey"
| "token_manager_apikey (BearerTokenAuthenticator bearer_token) =
     Inl (Exn AttributeError ''BearerTokenAuthenticator object has no attribute token_manager'')"

record http_request =
  url :: string
  headers :: "(string \<times> string) list"
  form_data :: "(string \<times> string) list"
  timeout :: nat

text \<open>
  A response as the code reads it: the status, the text of the error that
  \<^verbatim>\<open>raise_for_status\<close> builds from it, and what \<^verbatim>\<open>response.json()\<close> does (raise, or
  return the decoded body).
\<close>

record http_response =
  status_code :: nat
  error_text :: string
  json_body :: "exn + jvalue"

datatype content = Raw string | ZipArchive "(string \<times> content) list"

text \<open>
  A directory entry is a regular file, a directory with its named entries in the order
  the operating system lists them, or a symbolic link with what it resolves to (nothing
  for a dangling link).
\<close>

datatype node = File content | Dir "(string \<times> node) list" | Symlink "node option"

record datetime =
  year :: nat
  month :: nat
  day :: nat
  hour :: nat
  minute :: nat
  second :: nat
  microsecond :: nat

text \<open>The arguments that the storage client is constructed from.\<close>

record cos_client =
  ibm_api_key_id :: string
  ibm_service_instance_id :: string
  signature_version :: string
  endpoint_url :: string

text \<open>
  Everything outside the process. \<^verbatim>\<open>os.getenv\<close> reads \<open>environ\<close>; the file system maps
  a normalised path to what is there, and \<open>resolve\<close> gives the parts of the absolute,
  link-free path that \<^verbatim>\<open>Path(p).resolve()\<close> finds for a path. A tree is held by value,
  so the other names of one file are not in it: \<open>archive_links\<close> gives, for a source
  directory and an archive path, the places in the tree (parts relative to its root)
  of the links that lead to the archive file (a hard link counts as one: reading it
  gives the archive), and \<open>archive_in_progress\<close> what a reader finds in the archive
  file under a name in the tree while the archive is still being written. \<open>clock\<close>
  lists the successive answers of \<^verbatim>\<open>datetime.utcnow()\<close>; \<open>http_post\<close> is what
  \<^verbatim>\<open>requests.post\<close> does with a request (raise, or answer) and \<open>http_sent\<close> the
  requests made so far; \<open>cos_client_error\<close> is what \<^verbatim>\<open>ibm_boto3.client\<close> raises for
  its arguments, if anything (it rejects, for one, an endpoint that is not a valid
  URL); \<open>cos_put_error\<close> is what \<^verbatim>\<open>upload_fileobj\<close> raises for a bucket and key, if
  anything, and \<open>cos_objects\<close> the objects stored. Output printed to the terminal is
  not modelled.
\<close>

record world =
  environ :: "string \<Rightarrow> string option"
  fs :: "string \<Rightarrow> node option"
  resolve :: "string \<Rightarrow> string list"
  archive_links :: "string \<Rightarrow> string \<Rightarrow> string list list"
  archive_in_progress :: "string list \<Rightarrow> content"
  clock :: "nat \<Rightarrow> datetime"
  clock_reads :: nat
  http_post :: "http_request \<Rightarrow> exn + http_response"
  http_sent :: "http_request list"
  cos_client_error :: "cos_client \<Rightarrow> exn option"
  cos_put_error :: "string \<Rightarrow> string \<Rightarrow> exn option"
  cos_objects :: "string \<times> string \<Rightarrow> content option"

section \<open>Authentication (sdk/auth.py)\<close>

text \<open>
  The idiom \<^verbatim>\<open>if value is None: value = os.getenv(variable)\<close>: an argument that is
  given, even as the empty string, is kept.
\<close>

definition or_getenv :: "world \<Rightarrow> string option \<Rightarrow> string \<Rightarrow> string option" where
  "or_getenv w v variable = (case v of None \<Rightarrow> environ w variable | Some x \<Rightarrow> Some x)"

definition api_key_required :: string where
  "api_key_required =
     ''IBM Cloud API key is required. Provide it as an argument or set the ''
     @ ''IBM_CLOUD_API_KEY environment variable.''"

definition create_iam_authenticator :: "world \<Rightarrow> string option \<Rightarrow> exn + authenticator" where
  "create_iam_authenticator w api_key =
     (case or_getenv w api_key ''IBM_CLOUD_API_KEY'' of
        None \<Rightarrow> Inl (Exn ValueError api_key_required)
      | Some k \<Rightarrow>
          if k = [] then Inl (Exn ValueError api_key_required)
          else new_IAMAuthenticator k)"

text \<open>
  The two \<^verbatim>\<open>except\<close> clauses around the exchange: a \<^verbatim>\<open>RequestException\<close> and a
  \<^verbatim>\<open>KeyError\<close> are wrapped in a \<^verbatim>\<open>RuntimeError\<close>, anything else passes through.
\<close>

definition exchange_handler :: "exn \<Rightarrow> exn" where
  "exchange_handler e =
     (if exn_kind e = RequestException then
        Exn RuntimeError (''Failed to exchange OIDC token with IBM IAM: '' @ str_exn e)
      else if exn_kind e = KeyError then
        Exn RuntimeError (''Invalid response from IBM IAM token endpoint: '' @ str_exn e)
      else e)"

definition token_request :: "string \<Rightarrow> string \<Rightarrow> string \<Rightarrow> http_request" where
  "token_request oidc_token profile_id iam_endpoint =
     \<lparr>url = iam_endpoint @ ''/identity/token'',
      headers = [(''Content-Type'', ''application/x-www-form-urlencoded''),
                 (''Accept'', ''application/json'')],
      form_data = [(''grant_type'', ''urn:ibm:params:oauth:grant-type:cr-token''),
                   (''cr_token'', oidc_token), (''profile_id'', profile_id)],
      timeout = 10\<rparr>"

text \<open>\<^verbatim>\<open>response.raise_for_status()\<close> raises for the 4xx and 5xx statuses only.\<close>

definition raise_for_status :: "http_response \<Rightarrow> exn option" where
  "raise_for_status response =
     (if 400 \<le> status_code response \<and> status_code response < 600
      then Some (Exn RequestException (error_text response)) else None)"

definition create_iam_authenticator_oidc ::
  "world \<Rightarrow> string \<Rightarrow> string \<Rightarrow> string \<Rightarrow> (exn + authenticator) \<times> world" where
  "create_iam_authenticator_oidc w oidc_token profile_id iam_endpoint =
     (if oidc_token = [] then
        (Inl (Exn ValueError ''OIDC token is required for OIDC authentication''), w)
      else if profile_id = [] then
        (Inl (Exn ValueError (''IBM Cloud Trusted Profile ID is required for OIDC authentication. ''
                         @ ''Set it in your ibmcloudvercel.yml configuration.'')), w)
      else
        (let request = token_request oidc_token profile_id iam_endpoint;
             w' = w\<lparr>http_sent := http_sent w @ [request]\<rparr>
         in (case http_post w request of
               Inl e \<Rightarrow> (Inl (exchange_handler e), w')
             | Inr response \<Rightarrow>
                 (case raise_for_status response of
                    Some e \<Rightarrow> (Inl (exchange_handler e), w')
                  | None \<Rightarrow>
                      (case json_body response of
                         Inl e \<Rightarrow> (Inl (exchange_handler e), w')
                       | Inr token_data \<Rightarrow>
                           (case dict_get token_data ''access_token'' of
                              Inl e \<Rightarrow> (Inl (exchange_handler e), w')
                            | Inr access_token \<Rightarrow>
                                if \<not> truthy access_token then
                                  (Inl (exchange_handler
                                     (Exn RuntimeError ''Failed to obtain access token from IBM IAM'')), w')
                                else (Inr (BearerTokenAuthenticator access_token), w')))))))"

definition no_method_message :: string where
  "no_method_message =
     ''No valid authentication method available. Either set VERCEL_OIDC_TOKEN with ''
     @ ''a Trusted Profile ID, or set IBM_CLOUD_API_KEY environment variable.''"

definition get_authenticator ::
  "world \<Rightarrow> string option \<Rightarrow> string option \<Rightarrow> string option \<Rightarrow> (exn + authenticator) \<times> world" where
  "get_authenticator w profile_id api_key oidc_token =
     (let oidc_token = or_getenv w oidc_token ''VERCEL_OIDC_TOKEN''
      in if present oidc_token \<and> present profile_id then
           create_iam_authenticator_oidc w (case oidc_token of None \<Rightarrow> [] | Some t \<Rightarrow> t)
             (case profile_id of None \<Rightarrow> [] | Some p \<Rightarrow> p) ''https://iam.cloud.ibm.com''
         else
           (let api_key = or_getenv w api_key ''IBM_CLOUD_API_KEY''
            in if present api_key then (create_iam_authenticator w api_key, w)
               else (Inl (Exn ValueError no_method_message), w)))"

section \<open>The file system and the clock\<close>

text \<open>What a path resolves to when symbolic links are followed, as \<^verbatim>\<open>stat\<close> does.\<close>

fun follow :: "node \<Rightarrow> node option" where
  "follow (Symlink None) = None"
| "follow (Symlink (Some n)) = follow n"
| "follow n = Some n"

definition lookup :: "world \<Rightarrow> ppath \<Rightarrow> node option" where
  "lookup w p = (case fs w (str p) of None \<Rightarrow> None | Some n \<Rightarrow> follow n)"

text \<open>
  \<^verbatim>\<open>item.is_file()\<close> holds for a regular file and for a symbolic link that resolves to
  one; reading such an entry gives the content of the file it resolves to.
\<close>

definition file_content :: "node \<Rightarrow> content option" where
  "file_content n = (case follow n of Some (File c) \<Rightarrow> Some c | _ \<Rightarrow> None)"

definition is_file :: "node \<Rightarrow> bool" where
  "is_file n = (file_content n \<noteq> None)"

text \<open>
  \<^verbatim>\<open>source_path.rglob("*")\<close>: every entry below the root with the parts of its path
  relative to the root, the entries of a directory first and then those of its
  subdirectories; a symbolic link to a directory is listed and not entered.
\<close>

fun rglob :: "node \<Rightarrow> (string list \<times> node) list" where
  "rglob (Dir entries) =
     map (\<lambda>e. ([fst e], snd e)) entries
     @ concat (map (\<lambda>e. map (\<lambda>sub. (fst e # fst sub, snd sub)) (rglob (snd e))) entries)"
| "rglob (File c) = []"
| "rglob (Symlink t) = []"

text \<open>
  The loop that fills the archive: an entry is written under its posix relative path
  when it is a file and no rule excludes it.
\<close>

fun archive_items :: "string list \<Rightarrow> (string list \<times> node) list \<Rightarrow> (string \<times> content) list" where
  "archive_items exclude_patterns [] = []"
| "archive_items exclude_patterns ((rel, item) # items) =
     (case file_content item of
        Some c \<Rightarrow>
          if \<not> should_exclude exclude_patterns rel
          then (as_posix rel, c) # archive_items exclude_patterns items
          else archive_items exclude_patterns items
      | None \<Rightarrow> archive_items exclude_patterns items)"

text \<open>
  \<^verbatim>\<open>strftime("%Y%m%d_%H%M%S")\<close>: four digits for the year and two for each other field,
  zero-padded, which is exact for the instants a clock gives: a year of four digits
  and the other fields in their calendar ranges.
\<close>

definition valid_datetime :: "datetime \<Rightarrow> bool" where
  "valid_datetime t =
     (1000 \<le> year t \<and> year t \<le> 9999 \<and> 1 \<le> month t \<and> month t \<le> 12 \<and> 1 \<le> day t \<and> day t \<le> 31
      \<and> hour t < 24 \<and> minute t < 60 \<and> second t < 60 \<and> microsecond t < 1000000)"

definition digit :: "nat \<Rightarrow> char" where
  "digit n = ''0123456789'' ! (n mod 10)"

definition fmt2 :: "nat \<Rightarrow> string" where
  "fmt2 n = [digit (n div 10), digit n]"

definition fmt4 :: "nat \<Rightarrow> string" where
  "fmt4 n = [digit (n div 1000), digit (n div 100), digit (n div 10), digit n]"

definition strftime :: "datetime \<Rightarrow> string" where
  "strftime t =
     fmt4 (year t) @ fmt2 (month t) @ fmt2 (day t) @ ''_''
     @ fmt2 (hour t) @ fmt2 (minute t) @ fmt2 (second t)"

definition utcnow :: "world \<Rightarrow> datetime \<times> world" where
  "utcnow w = (clock w (clock_reads w), w\<lparr>clock_reads := Suc (clock_reads w)\<rparr>)"

text \<open>
  \<^verbatim>\<open>directory.mkdir(parents=True, exist_ok=True)\<close>: the directory and its missing
  ancestors are created from the top; it fails on a path that exists and is not a
  directory.
\<close>

definition dir_chain :: "ppath \<Rightarrow> string list" where
  "dir_chain p = map (\<lambda>k. str (p\<lparr>segs := take k (segs p)\<rparr>)) [1..<Suc (length (segs p))]"

fun make_dirs :: "(string \<Rightarrow> node option) \<Rightarrow> string list \<Rightarrow> exn + (string \<Rightarrow> node option)" where
  "make_dirs f [] = Inr f"
| "make_dirs f (d # ds) =
     (case f d of
        None \<Rightarrow> make_dirs (f(d \<mapsto> Dir [])) ds
      | Some n \<Rightarrow>
          (case follow n of
             Some (Dir entries) \<Rightarrow> make_dirs f ds
           | _ \<Rightarrow> Inl (Exn OSError (''File exists: '' @ d))))"

section \<open>Object storage (sdk/cos.py)\<close>

record COSUploader =
  self_bucket_name :: string
  self_endpoint :: string
  self_client :: cos_client

text \<open>
  \<^verbatim>\<open>COSUploader.__init__\<close>. The arguments of the client constructor are evaluated
  first, the attribute read among them; then the constructor of the storage SDK
  accepts them or raises.
\<close>

definition COSUploader_init ::
  "world \<Rightarrow> authenticator \<Rightarrow> string \<Rightarrow> string \<Rightarrow> string \<Rightarrow> exn + COSUploader" where
  "COSUploader_init w authenticator service_instance_id endpoint bucket_name =
     (case token_manager_apikey authenticator of
        Inl e \<Rightarrow> Inl e
      | Inr apikey \<Rightarrow>
          (let client = \<lparr>ibm_api_key_id = apikey,
                         ibm_service_instance_id = service_instance_id,
                         signature_version = ''oauth'',
                         endpoint_url = ''https://'' @ endpoint\<rparr>
           in case cos_client_error w client of
                Some e \<Rightarrow> Inl e
              | None \<Rightarrow>
                  Inr \<lparr>self_bucket_name = bucket_name, self_endpoint = endpoint,
                       self_client = client\<rparr>))"

definition create_cos_uploader ::
  "world \<Rightarrow> authenticator \<Rightarrow> string \<Rightarrow> string \<Rightarrow> string option \<Rightarrow> exn + COSUploader" where
  "create_cos_uploader w authenticator region bucket_name endpoint =
     (let endpoint = (case endpoint of
                        None \<Rightarrow> ''s3.'' @ region @ ''.cloud-object-storage.appdomain.cloud''
                      | Some e \<Rightarrow> e);
          service_instance_id =
            (case environ w ''IBM_COS_SERVICE_INSTANCE_ID'' of
               None \<Rightarrow> ''crn:v1:bluemix:public:cloud-object-storage:global:a/:::''
             | Some v \<Rightarrow> v)
      in COSUploader_init w authenticator service_instance_id endpoint bucket_name)"

text \<open>
  The archive file is opened for writing before the tree is listed, so the listing
  sees it when it lies in the tree. \<open>self_entry\<close> is its place there, if any: the parts
  of its resolved path below the resolved root.
\<close>

definition self_entry :: "world \<Rightarrow> string \<Rightarrow> string \<Rightarrow> string list option" where
  "self_entry w source_dir output_path =
     (let root = resolve w source_dir;
          out = resolve w output_path
      in if length root < length out \<and> take (length root) out = root
         then Some (drop (length root) out) else None)"

text \<open>
  Putting an entry at a place in a tree: the entry of that name is replaced, or else a
  new one is added after the others, and the directories on the way that are missing
  are made (as \<^verbatim>\<open>mkdir\<close> has made them by then). A place that passes through something
  other than a directory is no place of the tree, which is then left as it is.
\<close>

fun plant :: "node \<Rightarrow> string list \<Rightarrow> node \<Rightarrow> node" where
  "plant (Dir entries) [n] new =
     (if n \<in> set (map fst entries)
      then Dir (map (\<lambda>e. if fst e = n then (n, new) else e) entries)
      else Dir (entries @ [(n, new)]))"
| "plant (Dir entries) (n # m # rest) new =
     (if n \<in> set (map fst entries)
      then Dir (map (\<lambda>e. if fst e = n then (n, plant (snd e) (m # rest) new) else e) entries)
      else Dir (entries @ [(n, plant (Dir []) (m # rest) new)]))"
| "plant t rel new = t"

text \<open>
  The source tree as the loop finds it, with the archive file open: the tree found at
  the existence test, with the archive file in its own place and behind every link
  that leads to it.
\<close>

definition opened_tree :: "world \<Rightarrow> node \<Rightarrow> string \<Rightarrow> string \<Rightarrow> node" where
  "opened_tree w root source_dir output_path =
     foldl (\<lambda>t rel. plant t rel (Symlink (Some (File (archive_in_progress w rel)))))
       (case self_entry w source_dir output_path of
          None \<Rightarrow> root
        | Some rel \<Rightarrow> plant root rel (File (archive_in_progress w rel)))
       (archive_links w source_dir output_path)"

text \<open>
  \<^verbatim>\<open>create_source_archive\<close>. Resolving the source path and asking whether it exists is
  one look at the file system. Then the parent of the archive is made, the archive is
  opened, and the tree is listed as it is at that moment. Of the failures of the
  operating system, the two that depend on what is at the output path are modelled (a
  parent that is not a directory, an archive path that is a directory); permissions and
  full disks are not.
\<close>

definition create_source_archive ::
  "COSUploader \<Rightarrow> world \<Rightarrow> string \<Rightarrow> string option \<Rightarrow> string list option
     \<Rightarrow> (exn + string) \<times> world" where
  "create_source_archive self w source_dir output_path exclude_patterns =
     (let exclude_patterns =
            (case exclude_patterns of None \<Rightarrow> DEFAULT_EXCLUDE_PATTERNS | Some ps \<Rightarrow> ps);
          source_path = Path source_dir
      in case lookup w source_path of
           None \<Rightarrow>
             (Inl (Exn FileNotFoundError (''Source directory not found: '' @ source_dir)), w)
         | Some root \<Rightarrow>
             (let (output_path, w1) =
                    (case output_path of
                       None \<Rightarrow>
                         (let (now, w') = utcnow w
                          in (''/tmp/source_'' @ strftime now @ ''.zip'', w'))
                     | Some p \<Rightarrow> (p, w));
                  output_file = Path output_path
              in case make_dirs (fs w1) (dir_chain (parent output_file)) of
                   Inl e \<Rightarrow> (Inl e, w1)
                 | Inr fs2 \<Rightarrow>
                     (case (case fs2 (str output_file) of None \<Rightarrow> None | Some n \<Rightarrow> follow n) of
                        Some (Dir entries) \<Rightarrow>
                          (Inl (Exn OSError (''Is a directory: '' @ str output_file)),
                           w1\<lparr>fs := fs2\<rparr>)
                      | _ \<Rightarrow>
                          (let listed = rglob (opened_tree w1 root source_dir (str output_file))
                           in (Inr (str output_file),
                               w1\<lparr>fs := fs2(str output_file \<mapsto>
                                      File (ZipArchive (archive_items exclude_patterns listed)))\<rparr>)))))"

text \<open>
  \<^verbatim>\<open>upload_file\<close>. Opening the file and the transfer are inside the \<^verbatim>\<open>try\<close>: whatever
  they raise comes out as a \<^verbatim>\<open>RuntimeError\<close>; the existence test before it is not.
\<close>

definition upload_error :: "exn \<Rightarrow> exn" where
  "upload_error e = Exn RuntimeError (''Failed to upload file to COS: '' @ str_exn e)"

definition upload_file ::
  "COSUploader \<Rightarrow> world \<Rightarrow> string \<Rightarrow> string option \<Rightarrow> (exn + string) \<times> world" where
  "upload_file self w file_path object_name =
     (let file_to_upload = Path file_path
      in case lookup w file_to_upload of
           None \<Rightarrow> (Inl (Exn FileNotFoundError (''File not found: '' @ file_path)), w)
         | Some n \<Rightarrow>
             (let object_name =
                    (case object_name of None \<Rightarrow> name (segs file_to_upload) | Some k \<Rightarrow> k)
              in case n of
                   File c \<Rightarrow>
                     (case cos_put_error w (self_bucket_name self) object_name of
                        Some e \<Rightarrow> (Inl (upload_error e), w)
                      | None \<Rightarrow>
                          (Inr (''cos://'' @ self_bucket_name self @ ''/'' @ object_name),
                           w\<lparr>cos_objects :=
                                (cos_objects w)((self_bucket_name self, object_name) \<mapsto> c)\<rparr>))
                 | _ \<Rightarrow>
                     (Inl (upload_error (Exn OSError (''Is a directory: '' @ str file_to_upload))),
                      w)))"

definition upload_source_code ::
  "COSUploader \<Rightarrow> world \<Rightarrow> string \<Rightarrow> string \<Rightarrow> string list option
     \<Rightarrow> (exn + string \<times> string) \<times> world" where
  "upload_source_code self w source_dir deployment_id exclude_patterns =
     (let (now, w1) = utcnow w;
          timestamp = strftime now;
          object_name = ''deployments/'' @ deployment_id @ ''/'' @ timestamp @ ''_source.zip''
      in case create_source_archive self w1 source_dir None exclude_patterns of
           (Inl e, w2) \<Rightarrow> (Inl e, w2)
         | (Inr zip_path, w2) \<Rightarrow>
             (case upload_file self w2 zip_path (Some object_name) of
                (Inl e, w3) \<Rightarrow> (Inl e, w3)
              | (Inr cos_uri, w3) \<Rightarrow> (Inr (cos_uri, zip_path), w3)))"

section \<open>The deployment script (deploy_ibm.py)\<close>

record IBMCloudConfig =
  cfg_region :: string
  cfg_project_id :: string
  cfg_cos_bucket :: string
  cfg_cos_endpoint :: "string option"
  cfg_registry_secret :: "string option"
  cfg_trusted_profile_id :: "string option"

record VercelConfig =
  cfg_git_commit_sha :: string
  cfg_git_commit_ref :: string
  cfg_deployment_id :: string
  cfg_project_name :: string
  cfg_checks_token :: "string option"

record DeploymentConfig =
  cfg_ibm_cloud :: IBMCloudConfig
  cfg_vercel :: VercelConfig
  cfg_source_dir :: string
  cfg_cleanup_artifacts :: bool

text \<open>\<^verbatim>\<open>Path(zip_path).unlink(missing_ok=True)\<close>: a missing path is fine, a directory is not.\<close>

definition unlink :: "world \<Rightarrow> ppath \<Rightarrow> exn + world" where
  "unlink w p =
     (case fs w (str p) of
        Some (Dir entries) \<Rightarrow> Inl (Exn OSError (''Is a directory: '' @ str p))
      | _ \<Rightarrow> Inr (w\<lparr>fs := (fs w)(str p := None)\<rparr>))"

text \<open>
  \<^verbatim>\<open>main\<close>, from the outcome of its first step (loading and printing the
  configuration, which touches nothing modelled here) to the exit code. Each of the
  three \<^verbatim>\<open>except\<close> clauses returns 1.
\<close>

definition main :: "exn + DeploymentConfig \<Rightarrow> world \<Rightarrow> nat \<times> world" where
  "main step1 w =
     (case step1 of
        Inl e \<Rightarrow> (1, w)
      | Inr config \<Rightarrow>
          (case get_authenticator w (cfg_trusted_profile_id (cfg_ibm_cloud config)) None None of
             (Inl e, w1) \<Rightarrow> (1, w1)
           | (Inr authenticator, w1) \<Rightarrow>
               (case create_cos_uploader w1 authenticator (cfg_region (cfg_ibm_cloud config))
                       (cfg_cos_bucket (cfg_ibm_cloud config))
                       (cfg_cos_endpoint (cfg_ibm_cloud config)) of
                  Inl e \<Rightarrow> (1, w1)
                | Inr cos_uploader \<Rightarrow>
                    (case upload_source_code cos_uploader w1 (cfg_source_dir config)
                            (cfg_deployment_id (cfg_vercel config)) None of
                       (Inl e, w2) \<Rightarrow> (1, w2)
                     | (Inr (cos_uri, zip_path), w2) \<Rightarrow>
                         if cfg_cleanup_artifacts config then
                           (case unlink w2 (Path zip_path) of
                              Inl e \<Rightarrow> (1, w2)
                            | Inr w3 \<Rightarrow> (0, w3))
                         else (0, w2)))))"

section \<open>A concrete world\<close>

text \<open>
  The tree of the specification's scenario A, the instant of its scenario D, and a
  world in which the tree is the directory \<^verbatim>\<open>src\<close> of the working directory
  \<^verbatim>\<open>/work\<close>, nothing is a link, the scratch directory exists, the network refuses
  every connection, and the storage SDK accepts every client and every upload.
\<close>

definition example_tree :: node where
  "example_tree =
     Dir [(''a.txt'', File (Raw ''hello'')),
          (''.git'', Dir [(''config'', File (Raw ''bare''))]),
          (''node_modules'', Dir [(''x.js'', File (Raw ''js''))])]"

definition example_time :: datetime where
  "example_time =
     \<lparr>year = 2024, month = 1, day = 2, hour = 3, minute = 4, second = 5, microsecond = 0\<rparr>"

definition example_world :: world where
  "example_world =
     \<lparr>environ = Map.empty,
      fs = [''src'' \<mapsto> example_tree, ''/tmp'' \<mapsto> Dir []],
      resolve = (\<lambda>p. (if anchor (Path p) = [] then [''work''] else []) @ segs (Path p)),
      archive_links = (\<lambda>source_dir output_path. []),
      archive_in_progress = (\<lambda>rel. Raw ''PK''),
      clock = (\<lambda>n. example_time),
      clock_reads = 0,
      http_post = (\<lambda>request. Inl (Exn RequestException ''connection refused'')),
      http_sent = [],
      cos_client_error = (\<lambda>client. None),
      cos_put_error = (\<lambda>bucket key. None),
      cos_objects = Map.empty\<rparr>"

definition example_uploader :: COSUploader where
  "example_uploader =
     \<lparr>self_bucket_name = ''bucket'', self_endpoint = ''s3.us-south.cloud-object-storage.appdomain.cloud'',
      self_client = \<lparr>ibm_api_key_id = ''key'',
                      ibm_service_instance_id = ''crn:v1:bluemix:public:cloud-object-storage:global:a/:::'',
                      signature_version = ''oauth'',
                      endpoint_url = ''https://s3.us-south.cloud-object-storage.appdomain.cloud''\<rparr>\<rparr>"

text \<open>The regular files among listed entries: the entries that are files themselves.\<close>

fun regular_files :: "(string list \<times> node) list \<Rightarrow> (string list \<times> content) list" where
  "regular_files [] = []"
| "regular_files ((rel, File c) # items) = (rel, c) # regular_files items"
| "regular_files ((rel, item) # items) = regular_files items"

text \<open>
  Worlds for the credential resolver: one where the environment holds an OIDC token
  and an API key, one where it holds the API key only, one where it holds an API key
  in braces only, and a response with status 300 whose body is a JSON object carrying
  an access token.
\<close>

definition oidc_world :: world where
  "oidc_world =
     example_world\<lparr>environ := [''VERCEL_OIDC_TOKEN'' \<mapsto> ''oidc'', ''IBM_CLOUD_API_KEY'' \<mapsto> ''key'']\<rparr>"

definition api_key_world :: world where
  "api_key_world = example_world\<lparr>environ := [''IBM_CLOUD_API_KEY'' \<mapsto> ''key'']\<rparr>"

definition braced_key_world :: world where
  "braced_key_world = example_world\<lparr>environ := [''IBM_CLOUD_API_KEY'' \<mapsto> ''{key}'']\<rparr>"

definition multiple_choices_response :: http_response where
  "multiple_choices_response =
     \<lparr>status_code = 300, error_text = [],
      json_body = Inr (JObj [(''access_token'', JStr ''tok''), (''expires_in'', JNum 3600)])\<rparr>"

text \<open>
  A configuration for the deployment script, with the cleanup flag set, and a world
  whose object store refuses every upload.
\<close>

definition example_config :: DeploymentConfig where
  "example_config =
     \<lparr>cfg_ibm_cloud = \<lparr>cfg_region = ''us-south'', cfg_project_id = ''project'',
                        cfg_cos_bucket = ''bucket'',
                        cfg_cos_endpoint = Some ''s3.us-south.cloud-object-storage.appdomain.cloud'',
                        cfg_registry_secret = None, cfg_trusted_profile_id = None\<rparr>,
      cfg_vercel = \<lparr>cfg_git_commit_sha = ''unknown'', cfg_git_commit_ref = ''main'',
                     cfg_deployment_id = ''dep123'', cfg_project_name = ''app'',
                     cfg_checks_token = None\<rparr>,
      cfg_source_dir = ''src'',
      cfg_cleanup_artifacts = True\<rparr>"

definition refusing_store_world :: world where
  "refusing_store_world =
     api_key_world\<lparr>cos_put_error := (\<lambda>bucket key. Some (Exn OtherException ''quota exceeded''))\<rparr>"

text \<open>
  A world in which the token exchange succeeds, and a configuration that names a
  trusted profile.
\<close>

definition token_world :: world where
  "token_world =
     oidc_world\<lparr>http_post := (\<lambda>request. Inr \<lparr>status_code = 200, error_text = [],
        json_body = Inr (JObj [(''access_token'', JStr ''tok''), (''expires_in'', JNum 3600)])\<rparr>)\<rparr>"

definition profile_config :: DeploymentConfig where
  "profile_config =
     example_config\<lparr>cfg_ibm_cloud :=
        (cfg_ibm_cloud example_config)\<lparr>cfg_trusted_profile_id := Some ''Profile-1''\<rparr>\<rparr>"

text \<open>
  The archive in the words of the specification: the regular files under the root that
  no rule excludes, each under its posix relative path.
\<close>

definition regular_file_projection :: "string list \<Rightarrow> node \<Rightarrow> (string \<times> content) list" where
  "regular_file_projection rules root =
     map (\<lambda>(rel, c). (as_posix rel, c))
       (filter (\<lambda>(rel, c). \<not> should_exclude rules rel) (regular_files (rglob root)))"

text \<open>The class of the exception a call ended with, if it raised.\<close>

fun failure_class :: "exn + 'a \<Rightarrow> exn_class option" where
  "failure_class (Inl e) = Some (exn_kind e)"
| "failure_class (Inr v) = None"

section \<open>Exclusion rules\<close>

lemma should_exclude_iff:
  "should_exclude rules parts \<longleftrightarrow> (\<exists>r \<in> set rules. rule_matches r parts)"
  by (induction rules) (auto simp: rule_matches_def)

text \<open>
  C2. A rule without any of the characters \<^verbatim>\<open>* ? [ ]\<close> excludes a file exactly when it
  equals one of the segments of the file's relative path; a rule with one of them
  excludes it exactly when it matches the base name or the whole posix relative path;
  a file is excluded exactly when some rule of the list does so, whatever the order
  (and the multiplicity) of the rules.
\<close>

theorem should_exclude_rules:
  "(\<not> has_glob r \<longrightarrow> (should_exclude [r] parts \<longleftrightarrow> r \<in> set parts))
   \<and> (has_glob r \<longrightarrow>
        (should_exclude [r] parts \<longleftrightarrow> fnmatch (name parts) r \<or> fnmatch (as_posix parts) r))
   \<and> (should_exclude rules parts \<longleftrightarrow> (\<exists>r' \<in> set rules. should_exclude [r'] parts))
   \<and> (set rules' = set rules \<longrightarrow> should_exclude rules' parts = should_exclude rules parts)"
proof -
  have single: "\<And>q. should_exclude [q] parts \<longleftrightarrow> rule_matches q parts"
    by (simp add: rule_matches_def)
  have plain: "\<not> has_glob r \<longrightarrow> (should_exclude [r] parts \<longleftrightarrow> r \<in> set parts)"
    by simp
  have glob: "has_glob r \<longrightarrow>
      (should_exclude [r] parts \<longleftrightarrow> fnmatch (name parts) r \<or> fnmatch (as_posix parts) r)"
    by simp
  have some: "should_exclude rules parts \<longleftrightarrow> (\<exists>r' \<in> set rules. should_exclude [r'] parts)"
    unfolding single by (rule should_exclude_iff)
  have order: "set rules' = set rules \<longrightarrow> should_exclude rules' parts = should_exclude rules parts"
    by (simp add: should_exclude_iff)
  from plain glob some order show ?thesis by blast
qed

theorem should_exclude_rules_witness:
  "\<not> has_glob ''build'' \<and> \<not> should_exclude [''build''] [''rebuild'', ''x.py'']
   \<and> should_exclude [''build''] [''build'', ''x.py'']
   \<and> has_glob ''*.pyc'' \<and> should_exclude [''*.pyc''] [''pkg'', ''m.pyc'']
   \<and> \<not> should_exclude [''*.pyc''] [''pkg'', ''m.py'']
   \<and> should_exclude DEFAULT_EXCLUDE_PATTERNS [''pkg'', ''m.pyc'']
   \<and> should_exclude (rev DEFAULT_EXCLUDE_PATTERNS) [''pkg'', ''m.pyc'']"
proof -
  have plain: "\<not> has_glob ''build''" by (simp add: has_glob_def)
  have glob: "has_glob ''*.pyc''" by (simp add: has_glob_def)
  from should_exclude_rules [of "''build''" "[''rebuild'', ''x.py'']" "[]" "[]", THEN conjunct1] plain
  have "should_exclude [''build''] [''rebuild'', ''x.py''] \<longleftrightarrow> ''build'' \<in> set [''rebuild'', ''x.py'']"
    by (rule mp)
  then have a: "\<not> should_exclude [''build''] [''rebuild'', ''x.py'']" by simp
  from should_exclude_rules [of "''build''" "[''build'', ''x.py'']" "[]" "[]", THEN conjunct1] plain
  have "should_exclude [''build''] [''build'', ''x.py''] \<longleftrightarrow> ''build'' \<in> set [''build'', ''x.py'']"
    by (rule mp)
  then have b: "should_exclude [''build''] [''build'', ''x.py'']" by simp
  from should_exclude_rules [of "''*.pyc''" "[''pkg'', ''m.pyc'']" "[]" "[]",
      THEN conjunct2, THEN conjunct1] glob
  have "should_exclude [''*.pyc''] [''pkg'', ''m.pyc'']
        \<longleftrightarrow> fnmatch (name [''pkg'', ''m.pyc'']) ''*.pyc'' \<or> fnmatch (as_posix [''pkg'', ''m.pyc'']) ''*.pyc''"
    by (rule mp)
  then have c: "should_exclude [''*.pyc''] [''pkg'', ''m.pyc'']"
    by (simp add: fnmatch_def name_def as_posix_def)
  from should_exclude_rules [of "''*.pyc''" "[''pkg'', ''m.py'']" "[]" "[]",
      THEN conjunct2, THEN conjunct1] glob
  have "should_exclude [''*.pyc''] [''pkg'', ''m.py'']
        \<longleftrightarrow> fnmatch (name [''pkg'', ''m.py'']) ''*.pyc'' \<or> fnmatch (as_posix [''pkg'', ''m.py'']) ''*.pyc''"
    by (rule mp)
  then have d: "\<not> should_exclude [''*.pyc''] [''pkg'', ''m.py'']"
    by (simp add: fnmatch_def name_def as_posix_def)
  have "''*.pyc'' \<in> set DEFAULT_EXCLUDE_PATTERNS" by (simp add: DEFAULT_EXCLUDE_PATTERNS_def)
  with c should_exclude_rules [of "''*.pyc''" "[''pkg'', ''m.pyc'']" DEFAULT_EXCLUDE_PATTERNS
      "rev DEFAULT_EXCLUDE_PATTERNS", THEN conjunct2, THEN conjunct2, THEN conjunct1]
  have e: "should_exclude DEFAULT_EXCLUDE_PATTERNS [''pkg'', ''m.pyc'']" by blast
  have "set (rev DEFAULT_EXCLUDE_PATTERNS) = set DEFAULT_EXCLUDE_PATTERNS" by simp
  with e should_exclude_rules [of "''*.pyc''" "[''pkg'', ''m.pyc'']" DEFAULT_EXCLUDE_PATTERNS
      "rev DEFAULT_EXCLUDE_PATTERNS", THEN conjunct2, THEN conjunct2, THEN conjunct2]
  have f: "should_exclude (rev DEFAULT_EXCLUDE_PATTERNS) [''pkg'', ''m.pyc'']" by blast
  from plain a b glob c d e f show ?thesis by blast
qed

section \<open>Paths and timestamps\<close>

lemma split_slash_nonempty: "split_slash s \<noteq> []"
  by (induction s) (auto split: list.splits)

lemma split_slash_plain: "CHR ''/'' \<notin> set s \<Longrightarrow> split_slash s = [s]"
  by (induction s) auto

lemma split_slash_append:
  "CHR ''/'' \<notin> set b \<Longrightarrow> split_slash (a @ CHR ''/'' # b) = split_slash a @ [b]"
proof (induction a)
  case Nil
  then show ?case by (simp add: split_slash_plain)
next
  case (Cons c a)
  then show ?case
    using split_slash_nonempty [of a] by (cases "split_slash a") auto
qed

lemma name_of_joined:
  assumes "CHR ''/'' \<notin> set base" "base \<noteq> []" "base \<noteq> ''.''"
  shows "name (segs (Path (dir @ ''/'' @ base))) = base"
proof -
  from split_slash_append [OF assms(1), of dir]
  have "split_slash (dir @ ''/'' @ base) = split_slash dir @ [base]" by simp
  with assms(2,3) show ?thesis by (simp add: Path_def name_def)
qed

lemma digit_in: "digit n \<in> set ''0123456789''"
  unfolding digit_def by (rule nth_mem) simp

lemma digit_not_slash: "digit n \<noteq> CHR ''/''" "CHR ''/'' \<noteq> digit n"
  using digit_in [of n] by auto

lemma digit_inj: "digit a = digit b \<Longrightarrow> a mod 10 = b mod 10"
proof -
  assume h: "digit a = digit b"
  have d: "distinct ''0123456789''" by simp
  have la: "a mod 10 < length ''0123456789''" and lb: "b mod 10 < length ''0123456789''" by simp_all
  from h show ?thesis unfolding digit_def
    using nth_eq_iff_index_eq [OF d la lb] by simp
qed

lemma div_mod_10: "(x::nat) div 10 = y div 10 \<Longrightarrow> x mod 10 = y mod 10 \<Longrightarrow> x = y"
  by (metis div_mult_mod_eq)

lemma fmt2_inj: "fmt2 a = fmt2 b \<Longrightarrow> a < 100 \<Longrightarrow> b < 100 \<Longrightarrow> a = b"
proof -
  assume h: "fmt2 a = fmt2 b" and a: "a < 100" and b: "b < 100"
  from h have hi: "a div 10 mod 10 = b div 10 mod 10" and lo: "a mod 10 = b mod 10"
    by (auto simp: fmt2_def dest: digit_inj)
  from a b have "a div 10 < 10" "b div 10 < 10" by simp_all
  with hi have "a div 10 = b div 10" by simp
  from this lo show ?thesis by (rule div_mod_10)
qed

lemma fmt4_inj: "fmt4 a = fmt4 b \<Longrightarrow> a < 10000 \<Longrightarrow> b < 10000 \<Longrightarrow> a = b"
proof -
  assume h: "fmt4 a = fmt4 b" and a: "a < 10000" and b: "b < 10000"
  from h have d3: "a div 1000 mod 10 = b div 1000 mod 10"
    and d2: "a div 100 mod 10 = b div 100 mod 10"
    and d1: "a div 10 mod 10 = b div 10 mod 10" and d0: "a mod 10 = b mod 10"
    by (auto simp: fmt4_def dest: digit_inj)
  have e3: "\<And>n::nat. n div 1000 = n div 100 div 10" and e2: "\<And>n::nat. n div 100 = n div 10 div 10"
    by (simp_all add: div_mult2_eq)
  from a b have "a div 1000 < 10" "b div 1000 < 10" by simp_all
  with d3 have "a div 1000 = b div 1000" by simp
  then have "a div 100 div 10 = b div 100 div 10" by (simp add: e3)
  from this d2 have "a div 100 = b div 100" by (rule div_mod_10)
  then have "a div 10 div 10 = b div 10 div 10" by (simp add: e2)
  from this d1 have "a div 10 = b div 10" by (rule div_mod_10)
  from this d0 show ?thesis by (rule div_mod_10)
qed

lemma length_strftime: "length (strftime t) = 15"
  by (simp add: strftime_def fmt2_def fmt4_def)

lemma strftime_no_slash: "CHR ''/'' \<notin> set (strftime t)"
  by (simp add: strftime_def fmt2_def fmt4_def digit_not_slash)

lemma strftime_inj:
  assumes "valid_datetime s" "valid_datetime t" "strftime s = strftime t"
  shows "year s = year t \<and> month s = month t \<and> day s = day t
         \<and> hour s = hour t \<and> minute s = minute t \<and> second s = second t"
proof -
  have l2: "\<And>n. length (fmt2 n) = 2" and l4: "\<And>n. length (fmt4 n) = 4"
    by (simp_all add: fmt2_def fmt4_def)
  from assms(3) have "fmt4 (year s) = fmt4 (year t) \<and> fmt2 (month s) = fmt2 (month t)
      \<and> fmt2 (day s) = fmt2 (day t) \<and> fmt2 (hour s) = fmt2 (hour t)
      \<and> fmt2 (minute s) = fmt2 (minute t) \<and> fmt2 (second s) = fmt2 (second t)"
    unfolding strftime_def by (simp add: l2 l4)
  with assms(1,2) show ?thesis
    unfolding valid_datetime_def by (auto intro: fmt2_inj fmt4_inj)
qed

lemma Path_tmp_zip:
  "Path (''/tmp/source_'' @ strftime t @ ''.zip'')
     = \<lparr>anchor = ''/'', segs = [''tmp'', ''source_'' @ strftime t @ ''.zip'']\<rparr>"
proof -
  have "CHR ''/'' \<notin> set (''source_'' @ strftime t @ ''.zip'')"
    by (simp add: strftime_no_slash)
  from split_slash_append [OF this, of "''/tmp''"] show ?thesis
    by (simp add: Path_def)
qed

lemma str_Path_tmp_zip:
  "str (Path (''/tmp/source_'' @ strftime t @ ''.zip'')) = ''/tmp/source_'' @ strftime t @ ''.zip''"
  unfolding Path_tmp_zip by (simp add: str_def)

lemma example_lookup_src: "lookup example_world (Path ''src'') = Some example_tree"
  by (simp add: lookup_def Path_def str_def example_world_def example_tree_def)

lemma example_strftime: "strftime example_time = ''20240102_030405''"
  by (simp add: strftime_def fmt2_def fmt4_def digit_def example_time_def)

lemma example_items:
  "archive_items DEFAULT_EXCLUDE_PATTERNS (rglob example_tree) = [(''a.txt'', Raw ''hello'')]"
  by code_simp

section \<open>The archive builder\<close>

lemma opened_tree_clock:
  "opened_tree (w\<lparr>clock_reads := n\<rparr>) root source_dir output_path
     = opened_tree w root source_dir output_path"
  by (simp add: opened_tree_def self_entry_def cong: option.case_cong)

lemma opened_tree_outside:
  "self_entry w source_dir output_path = None \<Longrightarrow> archive_links w source_dir output_path = []
     \<Longrightarrow> opened_tree w root source_dir output_path = root"
  by (simp add: opened_tree_def)

lemma example_outside:
  assumes "resolve w = resolve example_world" and "archive_links w = archive_links example_world"
  shows "opened_tree w root ''src'' ''/out/a.zip'' = root"
    and "opened_tree w root ''src'' ''/tmp/source_20240102_030405.zip'' = root"
    and "opened_tree w root ''linked'' ''/tmp/a.zip'' = root"
  using assms
  by (simp_all add: opened_tree_def self_entry_def example_world_def Path_def Let_def)

lemma create_source_archive_written:
  assumes "create_source_archive self w source_dir output_path exclude_patterns = (Inr zip_path, w2)"
  shows "\<exists>root. lookup w (Path source_dir) = Some root
           \<and> fs w2 zip_path = Some (File (ZipArchive (archive_items
                (case exclude_patterns of None \<Rightarrow> DEFAULT_EXCLUDE_PATTERNS | Some ps \<Rightarrow> ps)
                (rglob (opened_tree w root source_dir zip_path)))))"
  using assms unfolding create_source_archive_def Let_def utcnow_def
  by (auto simp: opened_tree_clock split: option.splits sum.splits node.splits prod.splits)

lemma create_source_archive_default:
  assumes "create_source_archive self w source_dir None exclude_patterns = (Inr zip_path, w2)"
  shows "zip_path = ''/tmp/source_'' @ strftime (clock w (clock_reads w)) @ ''.zip''"
  using assms unfolding create_source_archive_def Let_def utcnow_def
  by (auto simp: Path_tmp_zip [simplified] str_def split: option.splits sum.splits node.splits prod.splits)

text \<open>
  C7. When the source path resolves to nothing, \<^verbatim>\<open>create_source_archive\<close> raises the
  not-found error (the built-in \<^verbatim>\<open>FileNotFoundError\<close>, with the message
  \<^verbatim>\<open>Source directory not found\<close>) and returns the world as it found it: the test comes
  before the output directory is made and before the archive is opened, so no
  file and no directory is written. The whole upload then fails the same way, with the
  file system and the object store unchanged.
\<close>

theorem create_source_archive_missing_root:
  "(lookup w (Path source_dir) = None \<longrightarrow>
      create_source_archive self w source_dir output_path exclude_patterns
        = (Inl (Exn FileNotFoundError (''Source directory not found: '' @ source_dir)), w))
   \<and> (lookup w (Path source_dir) = None \<longrightarrow>
      fst (upload_source_code self w source_dir deployment_id exclude_patterns)
        = Inl (Exn FileNotFoundError (''Source directory not found: '' @ source_dir))
      \<and> fs (snd (upload_source_code self w source_dir deployment_id exclude_patterns)) = fs w
      \<and> cos_objects (snd (upload_source_code self w source_dir deployment_id exclude_patterns))
          = cos_objects w)"
proof (intro conjI impI)
  assume "lookup w (Path source_dir) = None"
  then show "create_source_archive self w source_dir output_path exclude_patterns
        = (Inl (Exn FileNotFoundError (''Source directory not found: '' @ source_dir)), w)"
    by (simp add: create_source_archive_def)
next
  assume "lookup w (Path source_dir) = None"
  then have "lookup (w\<lparr>clock_reads := Suc (clock_reads w)\<rparr>) (Path source_dir) = None"
    by (simp add: lookup_def)
  then have "upload_source_code self w source_dir deployment_id exclude_patterns
      = (Inl (Exn FileNotFoundError (''Source directory not found: '' @ source_dir)),
         w\<lparr>clock_reads := Suc (clock_reads w)\<rparr>)"
    by (simp add: upload_source_code_def utcnow_def create_source_archive_def)
  then show "fst (upload_source_code self w source_dir deployment_id exclude_patterns)
        = Inl (Exn FileNotFoundError (''Source directory not found: '' @ source_dir))"
    and "fs (snd (upload_source_code self w source_dir deployment_id exclude_patterns)) = fs w"
    and "cos_objects (snd (upload_source_code self w source_dir deployment_id exclude_patterns))
          = cos_objects w"
    by simp_all
qed

theorem create_source_archive_missing_root_witness:
  "lookup example_world (Path ''missing'') = None
   \<and> create_source_archive example_uploader example_world ''missing'' (Some ''/out/a.zip'') None
       = (Inl (Exn FileNotFoundError ''Source directory not found: missing''), example_world)
   \<and> fs example_world ''/out'' = None
   \<and> fs (snd (create_source_archive example_uploader example_world ''src'' (Some ''/out/a.zip'') None))
        ''/out'' = Some (Dir [])
   \<and> fs (snd (create_source_archive example_uploader example_world ''src'' (Some ''/out/a.zip'') None))
        ''/out/a.zip'' = Some (File (ZipArchive [(''a.txt'', Raw ''hello'')]))"
proof -
  have miss: "lookup example_world (Path ''missing'') = None"
    by (simp add: lookup_def Path_def str_def example_world_def)
  from create_source_archive_missing_root [of example_world "''missing''" example_uploader
      "Some ''/out/a.zip''" None "[]", THEN conjunct1] miss
  have a: "create_source_archive example_uploader example_world ''missing'' (Some ''/out/a.zip'') None
       = (Inl (Exn FileNotFoundError (''Source directory not found: '' @ ''missing'')), example_world)"
    by (rule mp)
  have b: "fs example_world ''/out'' = None" by (simp add: example_world_def)
  have items: "archive_items DEFAULT_EXCLUDE_PATTERNS (rglob example_tree) = [(''a.txt'', Raw ''hello'')]"
    by code_simp
  have c: "create_source_archive example_uploader example_world ''src'' (Some ''/out/a.zip'') None
      = (Inr ''/out/a.zip'',
         example_world\<lparr>fs := (fs example_world)(''/out'' \<mapsto> Dir [],
            ''/out/a.zip'' \<mapsto> File (ZipArchive [(''a.txt'', Raw ''hello'')]))\<rparr>)"
    unfolding create_source_archive_def Let_def
    by (simp add: example_lookup_src)
       (simp add: Path_def str_def parent_def dir_chain_def example_world_def
          opened_tree_def self_entry_def items)
  from miss a b c show ?thesis by simp
qed

lemma archive_items_member:
  "(p, c) \<in> set (archive_items rules items)
     \<longleftrightarrow> (\<exists>rel item. p = as_posix rel \<and> (rel, item) \<in> set items
            \<and> file_content item = Some c \<and> \<not> should_exclude rules rel)"
proof (induction items)
  case Nil
  then show ?case by simp
next
  case (Cons x items)
  obtain rel item where x: "x = (rel, item)" by (cases x)
  show ?case
  proof (cases "file_content item")
    case None
    with Cons x show ?thesis by auto
  next
    case (Some c')
    with Cons x show ?thesis by (cases "should_exclude rules rel") auto
  qed
qed

lemma archive_items_set:
  "set (archive_items rules items)
     = {(as_posix rel, c) | rel c item.
          (rel, item) \<in> set items \<and> file_content item = Some c \<and> \<not> should_exclude rules rel}"
  using archive_items_member [of _ _ rules items] by auto

lemma file_content_cases:
  "file_content (File c) = Some c" "file_content (Dir entries) = None"
  "file_content (Symlink None) = None" "file_content (Symlink (Some n)) = file_content n"
  by (simp_all add: file_content_def)

text \<open>
  C3, as amended. The archive that \<^verbatim>\<open>create_source_archive\<close> writes holds exactly the
  entries that \<^verbatim>\<open>is_file()\<close> accepts and no rule excludes, each under its posix
  relative path, of the tree as it is listed, which is after the archive file has been
  opened. When the archive file is not in the source tree (its resolved path is not
  below the resolved root, and no link in the tree leads to it), that tree is the
  source tree, and the archive holds its regular files with their content and its
  symbolic links that resolve to a regular file with the content of that file. As a
  set the archive is the same for every order in which the entries are listed. For
  the tree \<^verbatim>\<open>{a.txt, .git/config, node_modules/x.js}\<close> and the default rules it holds
  \<^verbatim>\<open>a.txt\<close> only.
\<close>

theorem create_source_archive_projection:
  "(create_source_archive self w source_dir output_path exclude_patterns = (Inr zip_path, w')
      \<longrightarrow> (\<exists>root entries.
             lookup w (Path source_dir) = Some root
             \<and> fs w' zip_path = Some (File (ZipArchive entries))
             \<and> set entries
                 = {(as_posix rel, c) | rel c item.
                      (rel, item) \<in> set (rglob (opened_tree w root source_dir zip_path))
                      \<and> file_content item = Some c
                      \<and> \<not> should_exclude
                            (case exclude_patterns of None \<Rightarrow> DEFAULT_EXCLUDE_PATTERNS
                             | Some ps \<Rightarrow> ps) rel}))
   \<and> (create_source_archive self w source_dir output_path exclude_patterns = (Inr zip_path, w')
        \<and> self_entry w source_dir zip_path = None \<and> archive_links w source_dir zip_path = []
      \<longrightarrow> (\<exists>root entries.
             lookup w (Path source_dir) = Some root
             \<and> fs w' zip_path = Some (File (ZipArchive entries))
             \<and> set entries
                 = {(as_posix rel, c) | rel c item.
                      (rel, item) \<in> set (rglob root) \<and> file_content item = Some c
                      \<and> \<not> should_exclude
                            (case exclude_patterns of None \<Rightarrow> DEFAULT_EXCLUDE_PATTERNS
                             | Some ps \<Rightarrow> ps) rel}))
   \<and> file_content (File c) = Some c \<and> file_content (Dir es) = None
   \<and> file_content (Symlink None) = None \<and> file_content (Symlink (Some n)) = file_content n
   \<and> (set items' = set items
      \<longrightarrow> set (archive_items rules items') = set (archive_items rules items))
   \<and> archive_items DEFAULT_EXCLUDE_PATTERNS
        (rglob (Dir [(''a.txt'', File a), (''.git'', Dir [(''config'', File b)]),
                     (''node_modules'', Dir [(''x.js'', File d)])]))
       = [(''a.txt'', a)]"
proof (intro conjI impI)
  assume "create_source_archive self w source_dir output_path exclude_patterns = (Inr zip_path, w')"
  from create_source_archive_written [OF this]
  obtain root where root: "lookup w (Path source_dir) = Some root"
    and written: "fs w' zip_path = Some (File (ZipArchive (archive_items
                (case exclude_patterns of None \<Rightarrow> DEFAULT_EXCLUDE_PATTERNS | Some ps \<Rightarrow> ps)
                (rglob (opened_tree w root source_dir zip_path)))))"
    by blast
  from root written archive_items_set
  show "\<exists>root entries.
             lookup w (Path source_dir) = Some root
             \<and> fs w' zip_path = Some (File (ZipArchive entries))
             \<and> set entries
                 = {(as_posix rel, c) | rel c item.
                      (rel, item) \<in> set (rglob (opened_tree w root source_dir zip_path))
                      \<and> file_content item = Some c
                      \<and> \<not> should_exclude
                            (case exclude_patterns of None \<Rightarrow> DEFAULT_EXCLUDE_PATTERNS
                             | Some ps \<Rightarrow> ps) rel}"
    by blast
next
  assume h: "create_source_archive self w source_dir output_path exclude_patterns = (Inr zip_path, w')
        \<and> self_entry w source_dir zip_path = None \<and> archive_links w source_dir zip_path = []"
  then have run: "create_source_archive self w source_dir output_path exclude_patterns
      = (Inr zip_path, w')"
    by simp
  from h have same: "opened_tree w root source_dir zip_path = root" for root
    by (simp add: opened_tree_outside)
  from create_source_archive_written [OF run]
  obtain root where root: "lookup w (Path source_dir) = Some root"
    and written: "fs w' zip_path = Some (File (ZipArchive (archive_items
                (case exclude_patterns of None \<Rightarrow> DEFAULT_EXCLUDE_PATTERNS | Some ps \<Rightarrow> ps)
                (rglob root))))"
    unfolding same by blast
  from root written archive_items_set
  show "\<exists>root entries.
             lookup w (Path source_dir) = Some root
             \<and> fs w' zip_path = Some (File (ZipArchive entries))
             \<and> set entries
                 = {(as_posix rel, c) | rel c item.
                      (rel, item) \<in> set (rglob root) \<and> file_content item = Some c
                      \<and> \<not> should_exclude
                            (case exclude_patterns of None \<Rightarrow> DEFAULT_EXCLUDE_PATTERNS
                             | Some ps \<Rightarrow> ps) rel}"
    by blast
next
  assume "set items' = set items"
  then show "set (archive_items rules items') = set (archive_items rules items)"
    by (simp add: archive_items_set)
next
  have plain: "\<not> should_exclude DEFAULT_EXCLUDE_PATTERNS [''a.txt'']"
    by code_simp
  have git: "should_exclude DEFAULT_EXCLUDE_PATTERNS [''.git'', ''config'']"
    by code_simp
  have nm: "should_exclude DEFAULT_EXCLUDE_PATTERNS [''node_modules'', ''x.js'']"
    by code_simp
  show "archive_items DEFAULT_EXCLUDE_PATTERNS
        (rglob (Dir [(''a.txt'', File a), (''.git'', Dir [(''config'', File b)]),
                     (''node_modules'', Dir [(''x.js'', File d)])]))
       = [(''a.txt'', a)]"
    by (simp add: file_content_def as_posix_def plain git nm)
qed (simp_all add: file_content_cases)

theorem create_source_archive_projection_witness:
  "create_source_archive example_uploader example_world ''src'' (Some ''/out/a.zip'') None
     = (Inr ''/out/a.zip'',
        example_world\<lparr>fs := (fs example_world)(''/out'' \<mapsto> Dir [],
           ''/out/a.zip'' \<mapsto> File (ZipArchive [(''a.txt'', Raw ''hello'')]))\<rparr>)
   \<and> self_entry example_world ''src'' ''/out/a.zip'' = None
   \<and> archive_links example_world ''src'' ''/out/a.zip'' = []
   \<and> (\<exists>root entries.
         lookup example_world (Path ''src'') = Some root
         \<and> fs (snd (create_source_archive example_uploader example_world ''src''
                       (Some ''/out/a.zip'') None)) ''/out/a.zip''
             = Some (File (ZipArchive entries))
         \<and> set entries
             = {(as_posix rel, c) | rel c item.
                  (rel, item) \<in> set (rglob root) \<and> file_content item = Some c
                  \<and> \<not> should_exclude DEFAULT_EXCLUDE_PATTERNS rel})
   \<and> set (archive_items [''*.js''] (rev (rglob example_tree)))
       = set (archive_items [''*.js''] (rglob example_tree))"
proof -
  let ?w' = "example_world\<lparr>fs := (fs example_world)(''/out'' \<mapsto> Dir [],
            ''/out/a.zip'' \<mapsto> File (ZipArchive [(''a.txt'', Raw ''hello'')]))\<rparr>"
  note inst = create_source_archive_projection [of example_uploader example_world "''src''"
      "Some ''/out/a.zip''" None "''/out/a.zip''" ?w'
      "Raw ''hello''" "[]" "File (Raw ''hello'')" "rev (rglob example_tree)" "rglob example_tree"
      "[''*.js'']" "Raw ''hello''" "Raw ''bare''" "Raw ''js''"]
  have items: "archive_items DEFAULT_EXCLUDE_PATTERNS (rglob example_tree) = [(''a.txt'', Raw ''hello'')]"
    using inst [THEN conjunct2, THEN conjunct2, THEN conjunct2, THEN conjunct2, THEN conjunct2,
      THEN conjunct2, THEN conjunct2]
    by (simp only: example_tree_def)
  have run: "create_source_archive example_uploader example_world ''src'' (Some ''/out/a.zip'') None
      = (Inr ''/out/a.zip'', ?w')"
    unfolding create_source_archive_def Let_def
    by (simp add: example_lookup_src)
       (simp add: Path_def str_def parent_def dir_chain_def example_world_def
          opened_tree_def self_entry_def items)
  have self: "self_entry example_world ''src'' ''/out/a.zip'' = None"
    by (simp add: self_entry_def example_world_def Path_def Let_def)
  have links: "archive_links example_world ''src'' ''/out/a.zip'' = []"
    by (simp add: example_world_def)
  from run self links
  have pre: "create_source_archive example_uploader example_world ''src'' (Some ''/out/a.zip'') None
         = (Inr ''/out/a.zip'', ?w')
      \<and> self_entry example_world ''src'' ''/out/a.zip'' = None
      \<and> archive_links example_world ''src'' ''/out/a.zip'' = []"
    by simp
  from inst [THEN conjunct2, THEN conjunct1] pre
  have "\<exists>root entries.
         lookup example_world (Path ''src'') = Some root
         \<and> fs ?w' ''/out/a.zip'' = Some (File (ZipArchive entries))
         \<and> set entries
             = {(as_posix rel, c) | rel c item.
                  (rel, item) \<in> set (rglob root) \<and> file_content item = Some c
                  \<and> \<not> should_exclude
                        (case None of None \<Rightarrow> DEFAULT_EXCLUDE_PATTERNS | Some ps \<Rightarrow> ps) rel}"
    by (rule mp)
  then have proj: "\<exists>root entries.
         lookup example_world (Path ''src'') = Some root
         \<and> fs (snd (create_source_archive example_uploader example_world ''src''
                       (Some ''/out/a.zip'') None)) ''/out/a.zip''
             = Some (File (ZipArchive entries))
         \<and> set entries
             = {(as_posix rel, c) | rel c item.
                  (rel, item) \<in> set (rglob root) \<and> file_content item = Some c
                  \<and> \<not> should_exclude DEFAULT_EXCLUDE_PATTERNS rel}"
    by (simp add: run)
  have "set (rev (rglob example_tree)) = set (rglob example_tree)" by simp
  with inst [THEN conjunct2, THEN conjunct2, THEN conjunct2, THEN conjunct2, THEN conjunct2,
      THEN conjunct2, THEN conjunct1]
  have order: "set (archive_items [''*.js''] (rev (rglob example_tree)))
       = set (archive_items [''*.js''] (rglob example_tree))"
    by (rule mp)
  from run self links proj order show ?thesis by (intro conjI)
qed

text \<open>
  The claim as the specification words it, with regular files only, fails on a tree
  whose one entry is a symbolic link to a file: the tree has no regular file, and the
  archive, written outside the tree, has an entry.
\<close>

theorem regular_file_projection_counterexample:
  "regular_file_projection [] (Dir [(''link'', Symlink (Some (File (Raw ''target''))))]) = []
   \<and> fs (snd (create_source_archive example_uploader
             (example_world\<lparr>fs := (fs example_world)
                (''linked'' \<mapsto> Dir [(''link'', Symlink (Some (File (Raw ''target''))))])\<rparr>)
             ''linked'' (Some ''/tmp/a.zip'') (Some [])))
        ''/tmp/a.zip''
       = Some (File (ZipArchive [(''link'', Raw ''target'')]))"
proof -
  let ?w = "example_world\<lparr>fs := (fs example_world)
                (''linked'' \<mapsto> Dir [(''link'', Symlink (Some (File (Raw ''target''))))])\<rparr>"
  have a: "regular_file_projection [] (Dir [(''link'', Symlink (Some (File (Raw ''target''))))]) = []"
    by (simp add: regular_file_projection_def)
  have b: "create_source_archive example_uploader ?w ''linked'' (Some ''/tmp/a.zip'') (Some [])
      = (Inr ''/tmp/a.zip'',
         example_world\<lparr>fs := (fs example_world)
                (''linked'' \<mapsto> Dir [(''link'', Symlink (Some (File (Raw ''target''))))],
                 ''/tmp/a.zip'' \<mapsto> File (ZipArchive [(''link'', Raw ''target'')]))\<rparr>)"
    unfolding create_source_archive_def Let_def
    by (simp add: lookup_def Path_def str_def parent_def dir_chain_def example_world_def
          file_content_def as_posix_def opened_tree_def self_entry_def)
  from a b show ?thesis by simp
qed

text \<open>
  An archive written into the tree it packs lists itself: with the source \<^verbatim>\<open>src\<close> and
  the output \<^verbatim>\<open>src/out/a.zip\<close> the archive has a second entry, the archive file as far
  as it is written when the loop reaches it.
\<close>

lemma create_source_archive_lists_itself:
  "self_entry example_world ''src'' ''src/out/a.zip'' = Some [''out'', ''a.zip'']
   \<and> fs (snd (create_source_archive example_uploader example_world ''src''
                 (Some ''src/out/a.zip'') None)) ''src/out/a.zip''
       = Some (File (ZipArchive [(''a.txt'', Raw ''hello''), (''out/a.zip'', Raw ''PK'')]))"
proof -
  have self: "self_entry example_world ''src'' ''src/out/a.zip'' = Some [''out'', ''a.zip'']"
    by (simp add: self_entry_def example_world_def Path_def Let_def)
  have links: "archive_links example_world ''src'' ''src/out/a.zip'' = []"
    by (simp add: example_world_def)
  have part: "archive_in_progress example_world [''out'', ''a.zip''] = Raw ''PK''"
    by (simp add: example_world_def)
  have tree: "opened_tree example_world example_tree ''src'' ''src/out/a.zip''
      = Dir [(''a.txt'', File (Raw ''hello'')),
             (''.git'', Dir [(''config'', File (Raw ''bare''))]),
             (''node_modules'', Dir [(''x.js'', File (Raw ''js''))]),
             (''out'', Dir [(''a.zip'', File (Raw ''PK''))])]"
    by (simp add: opened_tree_def self links part example_tree_def)
  have items: "archive_items DEFAULT_EXCLUDE_PATTERNS
      (rglob (Dir [(''a.txt'', File (Raw ''hello'')),
             (''.git'', Dir [(''config'', File (Raw ''bare''))]),
             (''node_modules'', Dir [(''x.js'', File (Raw ''js''))]),
             (''out'', Dir [(''a.zip'', File (Raw ''PK''))])]))
      = [(''a.txt'', Raw ''hello''), (''out/a.zip'', Raw ''PK'')]"
    by code_simp
  have listed: "archive_items DEFAULT_EXCLUDE_PATTERNS
      (rglob (opened_tree example_world example_tree ''src'' ''src/out/a.zip''))
      = [(''a.txt'', Raw ''hello''), (''out/a.zip'', Raw ''PK'')]"
    unfolding tree by (rule items)
  have st: "str (Path ''src/out/a.zip'') = ''src/out/a.zip''"
    by (simp add: Path_def str_def)
  have md: "make_dirs (fs example_world) (dir_chain (parent (Path ''src/out/a.zip'')))
      = Inr ((fs example_world)(''src/out'' \<mapsto> Dir []))"
    by (simp add: Path_def str_def parent_def dir_chain_def example_world_def example_tree_def)
  have free: "fs example_world ''src/out/a.zip'' = None"
    by (simp add: example_world_def)
  have "create_source_archive example_uploader example_world ''src'' (Some ''src/out/a.zip'') None
      = (Inr ''src/out/a.zip'',
         example_world\<lparr>fs := (fs example_world)(''src/out'' \<mapsto> Dir [],
            ''src/out/a.zip'' \<mapsto> File (ZipArchive
               [(''a.txt'', Raw ''hello''), (''out/a.zip'', Raw ''PK'')]))\<rparr>)"
    unfolding create_source_archive_def Let_def
    by (simp add: example_lookup_src st md free listed)
  with self show ?thesis by simp
qed

section \<open>Uploading\<close>

text \<open>
  C10. For a local path that resolves to a file, \<^verbatim>\<open>upload_file\<close> called without an
  object name stores the content under the path's base name and returns
  \<^verbatim>\<open>cos://{bucket}/{base name}\<close>, provided the store accepts the object; whenever it
  returns without an object name, that is the locator it returns. The base name of
  \<^verbatim>\<open>dir/base\<close> is \<^verbatim>\<open>base\<close>, not the whole path.
\<close>

theorem upload_file_default_object_name:
  "(lookup w (Path file_path) = Some (File c)
      \<and> cos_put_error w (self_bucket_name self) (name (segs (Path file_path))) = None
    \<longrightarrow> upload_file self w file_path None
          = (Inr (''cos://'' @ self_bucket_name self @ ''/'' @ name (segs (Path file_path))),
             w\<lparr>cos_objects := (cos_objects w)
                  ((self_bucket_name self, name (segs (Path file_path))) \<mapsto> c)\<rparr>))
   \<and> (upload_file self w file_path None = (Inr cos_uri, w')
    \<longrightarrow> cos_uri = ''cos://'' @ self_bucket_name self @ ''/'' @ name (segs (Path file_path)))
   \<and> (CHR ''/'' \<notin> set base \<and> base \<noteq> [] \<and> base \<noteq> ''.''
    \<longrightarrow> name (segs (Path (dir @ ''/'' @ base))) = base)"
proof (intro conjI impI)
  assume "lookup w (Path file_path) = Some (File c)
      \<and> cos_put_error w (self_bucket_name self) (name (segs (Path file_path))) = None"
  then show "upload_file self w file_path None
          = (Inr (''cos://'' @ self_bucket_name self @ ''/'' @ name (segs (Path file_path))),
             w\<lparr>cos_objects := (cos_objects w)
                  ((self_bucket_name self, name (segs (Path file_path))) \<mapsto> c)\<rparr>)"
    by (simp add: upload_file_def Let_def)
next
  assume "upload_file self w file_path None = (Inr cos_uri, w')"
  then show "cos_uri = ''cos://'' @ self_bucket_name self @ ''/'' @ name (segs (Path file_path))"
    unfolding upload_file_def Let_def by (auto split: option.splits node.splits)
next
  assume "CHR ''/'' \<notin> set base \<and> base \<noteq> [] \<and> base \<noteq> ''.''"
  then show "name (segs (Path (dir @ ''/'' @ base))) = base"
    using name_of_joined [of base dir] by blast
qed

theorem upload_file_default_object_name_witness:
  "lookup (example_world\<lparr>fs := (fs example_world)(''/tmp/build/source.zip'' \<mapsto> File (Raw ''PK''))\<rparr>)
      (Path ''/tmp/build/source.zip'') = Some (File (Raw ''PK''))
   \<and> fst (upload_file example_uploader
        (example_world\<lparr>fs := (fs example_world)(''/tmp/build/source.zip'' \<mapsto> File (Raw ''PK''))\<rparr>)
        ''/tmp/build/source.zip'' None) = Inr ''cos://bucket/source.zip''
   \<and> cos_objects (snd (upload_file example_uploader
        (example_world\<lparr>fs := (fs example_world)(''/tmp/build/source.zip'' \<mapsto> File (Raw ''PK''))\<rparr>)
        ''/tmp/build/source.zip'' None)) (''bucket'', ''source.zip'') = Some (Raw ''PK'')
   \<and> name (segs (Path (''/tmp/build'' @ ''/'' @ ''source.zip''))) = ''source.zip''"
proof -
  let ?w = "example_world\<lparr>fs := (fs example_world)(''/tmp/build/source.zip'' \<mapsto> File (Raw ''PK''))\<rparr>"
  have nm: "name (segs (Path ''/tmp/build/source.zip'')) = ''source.zip''"
    by (simp add: Path_def name_def)
  have look: "lookup ?w (Path ''/tmp/build/source.zip'') = Some (File (Raw ''PK''))"
    by (simp add: lookup_def Path_def str_def)
  have pre: "lookup ?w (Path ''/tmp/build/source.zip'') = Some (File (Raw ''PK''))
      \<and> cos_put_error ?w (self_bucket_name example_uploader)
            (name (segs (Path ''/tmp/build/source.zip''))) = None"
    using look by (simp add: example_world_def)
  note inst = upload_file_default_object_name [of ?w "''/tmp/build/source.zip''" "Raw ''PK''"
      example_uploader "[]" ?w "''source.zip''" "''/tmp/build''"]
  from inst [THEN conjunct1] pre
  have run: "upload_file example_uploader ?w ''/tmp/build/source.zip'' None
          = (Inr (''cos://'' @ self_bucket_name example_uploader @ ''/''
                    @ name (segs (Path ''/tmp/build/source.zip''))),
             ?w\<lparr>cos_objects := (cos_objects ?w)
                  ((self_bucket_name example_uploader, name (segs (Path ''/tmp/build/source.zip'')))
                     \<mapsto> Raw ''PK'')\<rparr>)"
    by (rule mp)
  have a: "fst (upload_file example_uploader ?w ''/tmp/build/source.zip'' None)
             = Inr ''cos://bucket/source.zip''"
    unfolding run by (simp add: nm example_uploader_def)
  have b: "cos_objects (snd (upload_file example_uploader ?w ''/tmp/build/source.zip'' None))
             (''bucket'', ''source.zip'') = Some (Raw ''PK'')"
    unfolding run by (simp add: nm example_uploader_def)
  have "CHR ''/'' \<notin> set ''source.zip'' \<and> ''source.zip'' \<noteq> [] \<and> ''source.zip'' \<noteq> ''.''" by simp
  with inst [THEN conjunct2, THEN conjunct2]
  have c: "name (segs (Path (''/tmp/build'' @ ''/'' @ ''source.zip''))) = ''source.zip''"
    by (rule mp)
  from look a b c show ?thesis by blast
qed

lemma upload_source_code_returns:
  assumes "upload_source_code self w source_dir deployment_id exclude_patterns
             = (Inr (cos_uri, zip_path), w')"
  shows "cos_uri = ''cos://'' @ self_bucket_name self @ ''/'' @ ''deployments/'' @ deployment_id
                     @ ''/'' @ strftime (clock w (clock_reads w)) @ ''_source.zip''
         \<and> cos_objects w' (self_bucket_name self, ''deployments/'' @ deployment_id
                     @ ''/'' @ strftime (clock w (clock_reads w)) @ ''_source.zip'') \<noteq> None"
  using assms unfolding upload_source_code_def upload_file_def utcnow_def Let_def
  by (auto split: prod.splits sum.splits option.splits node.splits)

lemma upload_source_code_runs:
  assumes root: "lookup w (Path source_dir) = Some root"
    and tmp: "fs w ''/tmp'' = Some (Dir es)"
    and fresh: "fs w (''/tmp/source_'' @ strftime (clock w (Suc (clock_reads w))) @ ''.zip'') = None"
    and put: "cos_put_error w (self_bucket_name self) (''deployments/'' @ deployment_id
                @ ''/'' @ strftime (clock w (clock_reads w)) @ ''_source.zip'') = None"
  shows "fst (upload_source_code self w source_dir deployment_id exclude_patterns)
           = Inr (''cos://'' @ self_bucket_name self @ ''/'' @ ''deployments/'' @ deployment_id
                     @ ''/'' @ strftime (clock w (clock_reads w)) @ ''_source.zip'',
                  ''/tmp/source_'' @ strftime (clock w (Suc (clock_reads w))) @ ''.zip'')"
  using assms unfolding upload_source_code_def upload_file_def create_source_archive_def
    utcnow_def Let_def lookup_def
  by (simp add: Path_tmp_zip [simplified] str_def dir_chain_def parent_def split: option.splits)

text \<open>
  C6. \<^verbatim>\<open>upload_source_code\<close> names the object
  \<^verbatim>\<open>deployments/{deployment_id}/{YYYYMMDD_HHMMSS}_source.zip\<close> from the first reading of
  the UTC clock and, when it returns, returns the locator \<^verbatim>\<open>cos://{bucket}/{key}\<close> of
  the object it stored; it does return when the source exists, the scratch directory
  is a directory, nothing is in the archive's place and the store accepts the object.
  Two instants that differ in a field down to the second give different keys for one
  deployment id, two different deployment ids give different keys at any two
  instants, and deployment \<^verbatim>\<open>dep123\<close> at 2024-01-02T03:04:05Z gives
  \<^verbatim>\<open>deployments/dep123/20240102_030405_source.zip\<close>.
\<close>

theorem upload_source_code_object_key:
  "(upload_source_code self w source_dir deployment_id exclude_patterns = (Inr (cos_uri, zip_path), w')
      \<longrightarrow> cos_uri = ''cos://'' @ self_bucket_name self @ ''/'' @ ''deployments/'' @ deployment_id
                     @ ''/'' @ strftime (clock w (clock_reads w)) @ ''_source.zip''
          \<and> cos_objects w' (self_bucket_name self, ''deployments/'' @ deployment_id
                     @ ''/'' @ strftime (clock w (clock_reads w)) @ ''_source.zip'') \<noteq> None)
   \<and> (lookup w (Path source_dir) = Some root \<and> fs w ''/tmp'' = Some (Dir es)
        \<and> fs w (''/tmp/source_'' @ strftime (clock w (Suc (clock_reads w))) @ ''.zip'') = None
        \<and> cos_put_error w (self_bucket_name self) (''deployments/'' @ deployment_id
                @ ''/'' @ strftime (clock w (clock_reads w)) @ ''_source.zip'') = None
      \<longrightarrow> fst (upload_source_code self w source_dir deployment_id exclude_patterns)
           = Inr (''cos://'' @ self_bucket_name self @ ''/'' @ ''deployments/'' @ deployment_id
                     @ ''/'' @ strftime (clock w (clock_reads w)) @ ''_source.zip'',
                  ''/tmp/source_'' @ strftime (clock w (Suc (clock_reads w))) @ ''.zip''))
   \<and> (valid_datetime s \<and> valid_datetime t
        \<and> (year s, month s, day s, hour s, minute s, second s)
            \<noteq> (year t, month t, day t, hour t, minute t, second t)
      \<longrightarrow> ''deployments/'' @ d @ ''/'' @ strftime s @ ''_source.zip''
            \<noteq> ''deployments/'' @ d @ ''/'' @ strftime t @ ''_source.zip'')
   \<and> (d \<noteq> d'
      \<longrightarrow> ''deployments/'' @ d @ ''/'' @ strftime s @ ''_source.zip''
            \<noteq> ''deployments/'' @ d' @ ''/'' @ strftime t @ ''_source.zip'')
   \<and> ''deployments/'' @ ''dep123'' @ ''/'' @ strftime example_time @ ''_source.zip''
        = ''deployments/dep123/20240102_030405_source.zip''"
proof (intro conjI impI)
  assume "upload_source_code self w source_dir deployment_id exclude_patterns
            = (Inr (cos_uri, zip_path), w')"
  from upload_source_code_returns [OF this]
  show "cos_uri = ''cos://'' @ self_bucket_name self @ ''/'' @ ''deployments/'' @ deployment_id
                     @ ''/'' @ strftime (clock w (clock_reads w)) @ ''_source.zip''"
    and "cos_objects w' (self_bucket_name self, ''deployments/'' @ deployment_id
                     @ ''/'' @ strftime (clock w (clock_reads w)) @ ''_source.zip'') \<noteq> None"
    by blast+
next
  assume "lookup w (Path source_dir) = Some root \<and> fs w ''/tmp'' = Some (Dir es)
        \<and> fs w (''/tmp/source_'' @ strftime (clock w (Suc (clock_reads w))) @ ''.zip'') = None
        \<and> cos_put_error w (self_bucket_name self) (''deployments/'' @ deployment_id
                @ ''/'' @ strftime (clock w (clock_reads w)) @ ''_source.zip'') = None"
  then show "fst (upload_source_code self w source_dir deployment_id exclude_patterns)
           = Inr (''cos://'' @ self_bucket_name self @ ''/'' @ ''deployments/'' @ deployment_id
                     @ ''/'' @ strftime (clock w (clock_reads w)) @ ''_source.zip'',
                  ''/tmp/source_'' @ strftime (clock w (Suc (clock_reads w))) @ ''.zip'')"
    using upload_source_code_runs by blast
next
  assume h: "valid_datetime s \<and> valid_datetime t
        \<and> (year s, month s, day s, hour s, minute s, second s)
            \<noteq> (year t, month t, day t, hour t, minute t, second t)"
  show "''deployments/'' @ d @ ''/'' @ strftime s @ ''_source.zip''
            \<noteq> ''deployments/'' @ d @ ''/'' @ strftime t @ ''_source.zip''"
  proof
    assume "''deployments/'' @ d @ ''/'' @ strftime s @ ''_source.zip''
            = ''deployments/'' @ d @ ''/'' @ strftime t @ ''_source.zip''"
    then have "strftime s = strftime t" by simp
    with h strftime_inj [of s t] show False by simp
  qed
next
  assume h: "d \<noteq> d'"
  show "''deployments/'' @ d @ ''/'' @ strftime s @ ''_source.zip''
            \<noteq> ''deployments/'' @ d' @ ''/'' @ strftime t @ ''_source.zip''"
  proof
    assume "''deployments/'' @ d @ ''/'' @ strftime s @ ''_source.zip''
            = ''deployments/'' @ d' @ ''/'' @ strftime t @ ''_source.zip''"
    then have "d @ (''/'' @ strftime s @ ''_source.zip'') = d' @ (''/'' @ strftime t @ ''_source.zip'')"
      by simp
    moreover have "length (''/'' @ strftime s @ ''_source.zip'') = length (''/'' @ strftime t @ ''_source.zip'')"
      by (simp add: length_strftime)
    ultimately have "d = d'" by (metis append_eq_append_conv)
    with h show False by simp
  qed
next
  show "''deployments/'' @ ''dep123'' @ ''/'' @ strftime example_time @ ''_source.zip''
        = ''deployments/dep123/20240102_030405_source.zip''"
    by (simp add: strftime_def fmt2_def fmt4_def digit_def example_time_def)
qed

theorem upload_source_code_object_key_witness:
  "fst (upload_source_code example_uploader example_world ''src'' ''dep123'' None)
     = Inr (''cos://bucket/deployments/dep123/20240102_030405_source.zip'',
            ''/tmp/source_20240102_030405.zip'')
   \<and> valid_datetime example_time \<and> valid_datetime (example_time\<lparr>second := 6\<rparr>)
   \<and> ''deployments/dep123/'' @ strftime example_time @ ''_source.zip''
       \<noteq> ''deployments/dep123/'' @ strftime (example_time\<lparr>second := 6\<rparr>) @ ''_source.zip''
   \<and> ''dep123'' \<noteq> ''dep124''
   \<and> ''deployments/dep123/'' @ strftime example_time @ ''_source.zip''
       \<noteq> ''deployments/dep124/'' @ strftime (example_time\<lparr>second := 6\<rparr>) @ ''_source.zip''"
proof -
  have pre: "lookup example_world (Path ''src'') = Some example_tree
      \<and> fs example_world ''/tmp'' = Some (Dir [])
      \<and> fs example_world (''/tmp/source_''
            @ strftime (clock example_world (Suc (clock_reads example_world))) @ ''.zip'') = None
      \<and> cos_put_error example_world (self_bucket_name example_uploader)
            (''deployments/'' @ ''dep123'' @ ''/''
              @ strftime (clock example_world (clock_reads example_world)) @ ''_source.zip'') = None"
    by (simp add: example_lookup_src) (simp add: example_world_def example_strftime)
  have v: "valid_datetime example_time \<and> valid_datetime (example_time\<lparr>second := 6\<rparr>)
      \<and> (year example_time, month example_time, day example_time, hour example_time,
           minute example_time, second example_time)
         \<noteq> (year (example_time\<lparr>second := 6\<rparr>), month (example_time\<lparr>second := 6\<rparr>),
             day (example_time\<lparr>second := 6\<rparr>), hour (example_time\<lparr>second := 6\<rparr>),
             minute (example_time\<lparr>second := 6\<rparr>), second (example_time\<lparr>second := 6\<rparr>))"
    by (simp add: valid_datetime_def example_time_def)
  have n: "''dep123'' \<noteq> ''dep124''" by simp
  note inst = upload_source_code_object_key [of example_uploader example_world "''src''" "''dep123''"
      None "[]" "[]" example_world example_tree "[]" example_time "example_time\<lparr>second := 6\<rparr>"
      "''dep123''" "''dep124''"]
  from inst [THEN conjunct2, THEN conjunct1] pre
  have "fst (upload_source_code example_uploader example_world ''src'' ''dep123'' None)
     = Inr (''cos://'' @ self_bucket_name example_uploader @ ''/'' @ ''deployments/'' @ ''dep123''
               @ ''/'' @ strftime (clock example_world (clock_reads example_world)) @ ''_source.zip'',
            ''/tmp/source_'' @ strftime (clock example_world (Suc (clock_reads example_world)))
               @ ''.zip'')"
    by (rule mp)
  then have run: "fst (upload_source_code example_uploader example_world ''src'' ''dep123'' None)
     = Inr (''cos://bucket/deployments/dep123/20240102_030405_source.zip'',
            ''/tmp/source_20240102_030405.zip'')"
    by (simp add: example_world_def example_uploader_def example_strftime)
  from inst [THEN conjunct2, THEN conjunct2, THEN conjunct1] v
  have "''deployments/'' @ ''dep123'' @ ''/'' @ strftime example_time @ ''_source.zip''
       \<noteq> ''deployments/'' @ ''dep123'' @ ''/'' @ strftime (example_time\<lparr>second := 6\<rparr>) @ ''_source.zip''"
    by (rule mp)
  then have times: "''deployments/dep123/'' @ strftime example_time @ ''_source.zip''
       \<noteq> ''deployments/dep123/'' @ strftime (example_time\<lparr>second := 6\<rparr>) @ ''_source.zip''"
    by simp
  from inst [THEN conjunct2, THEN conjunct2, THEN conjunct2, THEN conjunct1] n
  have "''deployments/'' @ ''dep123'' @ ''/'' @ strftime example_time @ ''_source.zip''
       \<noteq> ''deployments/'' @ ''dep124'' @ ''/'' @ strftime (example_time\<lparr>second := 6\<rparr>) @ ''_source.zip''"
    by (rule mp)
  then have ids: "''deployments/dep123/'' @ strftime example_time @ ''_source.zip''
       \<noteq> ''deployments/dep124/'' @ strftime (example_time\<lparr>second := 6\<rparr>) @ ''_source.zip''"
    by simp
  from run v times n ids show ?thesis by blast
qed

section \<open>Credential resolution\<close>

lemma oidc_sent:
  "oidc_token \<noteq> [] \<Longrightarrow> profile_id \<noteq> [] \<Longrightarrow>
   http_sent (snd (create_iam_authenticator_oidc w oidc_token profile_id iam_endpoint))
     = http_sent w @ [token_request oidc_token profile_id iam_endpoint]"
  unfolding create_iam_authenticator_oidc_def Let_def
  by (simp split: sum.splits option.splits)

lemma oidc_never_api_key:
  "fst (create_iam_authenticator_oidc w oidc_token profile_id iam_endpoint) \<noteq> Inr (IAMAuthenticator k)"
  unfolding create_iam_authenticator_oidc_def Let_def
  by (simp split: sum.splits option.splits)

lemma oidc_environ:
  "fst (create_iam_authenticator_oidc (w\<lparr>environ := env\<rparr>) oidc_token profile_id iam_endpoint)
     = fst (create_iam_authenticator_oidc w oidc_token profile_id iam_endpoint)"
  unfolding create_iam_authenticator_oidc_def Let_def
  by (simp split: sum.splits option.splits)

lemma get_authenticator_oidc:
  assumes "or_getenv w oidc_token ''VERCEL_OIDC_TOKEN'' = Some tok" "tok \<noteq> []"
    and "profile_id = Some pid" "pid \<noteq> []"
  shows "get_authenticator w profile_id api_key oidc_token
           = create_iam_authenticator_oidc w tok pid ''https://iam.cloud.ibm.com''"
  using assms by (simp add: get_authenticator_def)

text \<open>
  C4, as amended. Resolution is a function of its inputs with a fixed priority. When an
  OIDC token (given, or else from the environment) and a trusted-profile identifier are
  both present, the result is that of the token exchange: exactly one request is sent
  and the credential does not depend on any API key, given or in the environment, and
  is never an API-key credential. Otherwise, when an API key (given, or else from the
  environment) is present, the world is unchanged, so no request is sent, and the
  result is the API-key credential unless the key starts with an opening brace or a
  double quote or ends with a closing brace or a double quote: such a key the
  constructor of the credential rejects with a \<^verbatim>\<open>ValueError\<close>. Otherwise resolution
  raises the no-method error (the built-in \<^verbatim>\<open>ValueError\<close>) and the world is unchanged.
\<close>

theorem get_authenticator_priority:
  "(or_getenv w oidc_token ''VERCEL_OIDC_TOKEN'' = Some tok \<and> tok \<noteq> []
      \<and> profile_id = Some pid \<and> pid \<noteq> []
    \<longrightarrow> get_authenticator w profile_id api_key oidc_token
          = create_iam_authenticator_oidc w tok pid ''https://iam.cloud.ibm.com''
        \<and> http_sent (snd (get_authenticator w profile_id api_key oidc_token))
          = http_sent w @ [token_request tok pid ''https://iam.cloud.ibm.com'']
        \<and> fst (get_authenticator (w\<lparr>environ := (environ w)(''IBM_CLOUD_API_KEY'' := env_key)\<rparr>)
                 profile_id api_key' oidc_token)
          = fst (get_authenticator w profile_id api_key oidc_token)
        \<and> fst (get_authenticator w profile_id api_key oidc_token) \<noteq> Inr (IAMAuthenticator k))
   \<and> (\<not> (present (or_getenv w oidc_token ''VERCEL_OIDC_TOKEN'') \<and> present profile_id)
      \<and> or_getenv w api_key ''IBM_CLOUD_API_KEY'' = Some k \<and> k \<noteq> []
      \<and> \<not> has_bad_first_or_last_char k
    \<longrightarrow> get_authenticator w profile_id api_key oidc_token = (Inr (IAMAuthenticator k), w))
   \<and> (\<not> (present (or_getenv w oidc_token ''VERCEL_OIDC_TOKEN'') \<and> present profile_id)
      \<and> or_getenv w api_key ''IBM_CLOUD_API_KEY'' = Some k \<and> k \<noteq> []
      \<and> has_bad_first_or_last_char k
    \<longrightarrow> get_authenticator w profile_id api_key oidc_token
          = (Inl (Exn ValueError bad_apikey_message), w))
   \<and> (\<not> (present (or_getenv w oidc_token ''VERCEL_OIDC_TOKEN'') \<and> present profile_id)
      \<and> \<not> present (or_getenv w api_key ''IBM_CLOUD_API_KEY'')
    \<longrightarrow> get_authenticator w profile_id api_key oidc_token
          = (Inl (Exn ValueError no_method_message), w))"
proof (intro conjI impI)
  assume h: "or_getenv w oidc_token ''VERCEL_OIDC_TOKEN'' = Some tok \<and> tok \<noteq> []
      \<and> profile_id = Some pid \<and> pid \<noteq> []"
  then have eq: "get_authenticator w profile_id api_key oidc_token
          = create_iam_authenticator_oidc w tok pid ''https://iam.cloud.ibm.com''"
    by (simp add: get_authenticator_oidc)
  show "get_authenticator w profile_id api_key oidc_token
          = create_iam_authenticator_oidc w tok pid ''https://iam.cloud.ibm.com''"
    by (rule eq)
  from h have t: "tok \<noteq> []" and p: "pid \<noteq> []" by simp_all
  show "http_sent (snd (get_authenticator w profile_id api_key oidc_token))
          = http_sent w @ [token_request tok pid ''https://iam.cloud.ibm.com'']"
    unfolding eq by (rule oidc_sent [OF t p])
  from h have "or_getenv (w\<lparr>environ := (environ w)(''IBM_CLOUD_API_KEY'' := env_key)\<rparr>)
                  oidc_token ''VERCEL_OIDC_TOKEN'' = Some tok"
    by (cases oidc_token) (simp_all add: or_getenv_def)
  with h have eq': "get_authenticator (w\<lparr>environ := (environ w)(''IBM_CLOUD_API_KEY'' := env_key)\<rparr>)
                 profile_id api_key' oidc_token
      = create_iam_authenticator_oidc (w\<lparr>environ := (environ w)(''IBM_CLOUD_API_KEY'' := env_key)\<rparr>)
          tok pid ''https://iam.cloud.ibm.com''"
    by (simp add: get_authenticator_oidc)
  show "fst (get_authenticator (w\<lparr>environ := (environ w)(''IBM_CLOUD_API_KEY'' := env_key)\<rparr>)
                 profile_id api_key' oidc_token)
          = fst (get_authenticator w profile_id api_key oidc_token)"
    unfolding eq eq' by (rule oidc_environ)
  show "fst (get_authenticator w profile_id api_key oidc_token) \<noteq> Inr (IAMAuthenticator k)"
    unfolding eq by (rule oidc_never_api_key)
next
  assume "\<not> (present (or_getenv w oidc_token ''VERCEL_OIDC_TOKEN'') \<and> present profile_id)
      \<and> or_getenv w api_key ''IBM_CLOUD_API_KEY'' = Some k \<and> k \<noteq> []
      \<and> \<not> has_bad_first_or_last_char k"
  moreover from this have "create_iam_authenticator w (Some k) = Inr (IAMAuthenticator k)"
    by (simp add: create_iam_authenticator_def or_getenv_def new_IAMAuthenticator_def)
  ultimately show "get_authenticator w profile_id api_key oidc_token = (Inr (IAMAuthenticator k), w)"
    by (auto simp: get_authenticator_def Let_def)
next
  assume "\<not> (present (or_getenv w oidc_token ''VERCEL_OIDC_TOKEN'') \<and> present profile_id)
      \<and> or_getenv w api_key ''IBM_CLOUD_API_KEY'' = Some k \<and> k \<noteq> []
      \<and> has_bad_first_or_last_char k"
  moreover from this
  have "create_iam_authenticator w (Some k) = Inl (Exn ValueError bad_apikey_message)"
    by (simp add: create_iam_authenticator_def or_getenv_def new_IAMAuthenticator_def)
  ultimately show "get_authenticator w profile_id api_key oidc_token
          = (Inl (Exn ValueError bad_apikey_message), w)"
    by (auto simp: get_authenticator_def Let_def)
next
  assume "\<not> (present (or_getenv w oidc_token ''VERCEL_OIDC_TOKEN'') \<and> present profile_id)
      \<and> \<not> present (or_getenv w api_key ''IBM_CLOUD_API_KEY'')"
  then show "get_authenticator w profile_id api_key oidc_token
          = (Inl (Exn ValueError no_method_message), w)"
    by (auto simp: get_authenticator_def Let_def)
qed

theorem get_authenticator_priority_witness:
  "fst (get_authenticator oidc_world (Some ''Profile-1'') None None)
     = Inl (Exn RuntimeError ''Failed to exchange OIDC token with IBM IAM: connection refused'')
   \<and> http_sent (snd (get_authenticator oidc_world (Some ''Profile-1'') None None))
     = [token_request ''oidc'' ''Profile-1'' ''https://iam.cloud.ibm.com'']
   \<and> get_authenticator api_key_world (Some ''Profile-1'') None None
     = (Inr (IAMAuthenticator ''key''), api_key_world)
   \<and> get_authenticator braced_key_world (Some ''Profile-1'') None None
     = (Inl (Exn ValueError bad_apikey_message), braced_key_world)
   \<and> get_authenticator example_world None None None
     = (Inl (Exn ValueError no_method_message), example_world)"
proof -
  have pre1: "or_getenv oidc_world None ''VERCEL_OIDC_TOKEN'' = Some ''oidc'' \<and> ''oidc'' \<noteq> []
      \<and> Some ''Profile-1'' = Some ''Profile-1'' \<and> ''Profile-1'' \<noteq> []"
    by (simp add: or_getenv_def oidc_world_def)
  note i1 = get_authenticator_priority [of oidc_world None "''oidc''" "Some ''Profile-1''"
      "''Profile-1''" None "None" None "''key''", THEN conjunct1]
  from i1 pre1 have r1: "get_authenticator oidc_world (Some ''Profile-1'') None None
          = create_iam_authenticator_oidc oidc_world ''oidc'' ''Profile-1'' ''https://iam.cloud.ibm.com''
        \<and> http_sent (snd (get_authenticator oidc_world (Some ''Profile-1'') None None))
          = http_sent oidc_world @ [token_request ''oidc'' ''Profile-1'' ''https://iam.cloud.ibm.com'']"
    by blast
  have a: "fst (get_authenticator oidc_world (Some ''Profile-1'') None None)
     = Inl (Exn RuntimeError ''Failed to exchange OIDC token with IBM IAM: connection refused'')"
    unfolding r1 [THEN conjunct1]
    by (simp add: create_iam_authenticator_oidc_def exchange_handler_def oidc_world_def
          example_world_def)
  have b: "http_sent (snd (get_authenticator oidc_world (Some ''Profile-1'') None None))
     = [token_request ''oidc'' ''Profile-1'' ''https://iam.cloud.ibm.com'']"
    unfolding r1 [THEN conjunct2] by (simp add: oidc_world_def example_world_def)
  have pre2: "\<not> (present (or_getenv api_key_world None ''VERCEL_OIDC_TOKEN'') \<and> present (Some ''Profile-1''))
      \<and> or_getenv api_key_world None ''IBM_CLOUD_API_KEY'' = Some ''key'' \<and> ''key'' \<noteq> []
      \<and> \<not> has_bad_first_or_last_char ''key''"
    by (simp add: or_getenv_def api_key_world_def has_bad_first_or_last_char_def)
  from get_authenticator_priority [of api_key_world None "[]" "Some ''Profile-1''" "[]" None
      "None" None "''key''", THEN conjunct2, THEN conjunct1] pre2
  have c: "get_authenticator api_key_world (Some ''Profile-1'') None None
     = (Inr (IAMAuthenticator ''key''), api_key_world)"
    by (rule mp)
  have pre2': "\<not> (present (or_getenv braced_key_world None ''VERCEL_OIDC_TOKEN'')
                  \<and> present (Some ''Profile-1''))
      \<and> or_getenv braced_key_world None ''IBM_CLOUD_API_KEY'' = Some ''{key}'' \<and> ''{key}'' \<noteq> []
      \<and> has_bad_first_or_last_char ''{key}''"
    by (simp add: or_getenv_def braced_key_world_def has_bad_first_or_last_char_def)
  from get_authenticator_priority [of braced_key_world None "[]" "Some ''Profile-1''" "[]" None
      "None" None "''{key}''", THEN conjunct2, THEN conjunct2, THEN conjunct1] pre2'
  have c': "get_authenticator braced_key_world (Some ''Profile-1'') None None
     = (Inl (Exn ValueError bad_apikey_message), braced_key_world)"
    by (rule mp)
  have pre3: "\<not> (present (or_getenv example_world None ''VERCEL_OIDC_TOKEN'') \<and> present None)
      \<and> \<not> present (or_getenv example_world None ''IBM_CLOUD_API_KEY'')"
    by (simp add: or_getenv_def example_world_def)
  from get_authenticator_priority [of example_world None "[]" None "[]" None
      "None" None "[]", THEN conjunct2, THEN conjunct2, THEN conjunct2] pre3
  have d: "get_authenticator example_world None None None
     = (Inl (Exn ValueError no_method_message), example_world)"
    by (rule mp)
  from a b c c' d show ?thesis by blast
qed

text \<open>
  The claim as the specification words it, with an API-key credential whenever a key is
  available, does not hold: with no OIDC token and the key \<^verbatim>\<open>{key}\<close> in the environment,
  resolution raises \<^verbatim>\<open>ValueError\<close> and returns no credential.
\<close>

theorem get_authenticator_api_key_counterexample:
  "or_getenv braced_key_world None ''VERCEL_OIDC_TOKEN'' = None
   \<and> or_getenv braced_key_world None ''IBM_CLOUD_API_KEY'' = Some ''{key}''
   \<and> fst (get_authenticator braced_key_world None None None)
       = Inl (Exn ValueError bad_apikey_message)
   \<and> failure_class (fst (get_authenticator braced_key_world None None None)) = Some ValueError"
  by (simp add: get_authenticator_def create_iam_authenticator_def new_IAMAuthenticator_def
        has_bad_first_or_last_char_def or_getenv_def braced_key_world_def example_world_def)

text \<open>
  C5, as amended. When the exchange is attempted (token and profile identifier both
  present), resolution raises the exchange error (the built-in \<^verbatim>\<open>RuntimeError\<close>) when
  the request raises a transport error, when the response has a 4xx or 5xx status, and
  when a response of any other status carries a JSON object without a non-empty
  \<^verbatim>\<open>access_token\<close>. In every case exactly one request is sent, and the result is never
  an API-key credential: there is no fallback.
\<close>

theorem oidc_exchange_failure:
  "or_getenv w oidc_token ''VERCEL_OIDC_TOKEN'' = Some tok \<and> tok \<noteq> []
      \<and> profile_id = Some pid \<and> pid \<noteq> []
   \<longrightarrow> (http_post w (token_request tok pid ''https://iam.cloud.ibm.com'') = Inl e
          \<and> exn_kind e = RequestException
        \<longrightarrow> fst (get_authenticator w profile_id api_key oidc_token)
              = Inl (Exn RuntimeError (''Failed to exchange OIDC token with IBM IAM: '' @ str_exn e)))
     \<and> (http_post w (token_request tok pid ''https://iam.cloud.ibm.com'') = Inr response
          \<and> 400 \<le> status_code response \<and> status_code response < 600
        \<longrightarrow> fst (get_authenticator w profile_id api_key oidc_token)
              = Inl (Exn RuntimeError
                       (''Failed to exchange OIDC token with IBM IAM: '' @ error_text response)))
     \<and> (http_post w (token_request tok pid ''https://iam.cloud.ibm.com'') = Inr response
          \<and> \<not> (400 \<le> status_code response \<and> status_code response < 600)
          \<and> json_body response = Inr (JObj kvs)
          \<and> \<not> truthy (case map_of kvs ''access_token'' of None \<Rightarrow> JNull | Some v \<Rightarrow> v)
        \<longrightarrow> fst (get_authenticator w profile_id api_key oidc_token)
              = Inl (Exn RuntimeError ''Failed to obtain access token from IBM IAM''))
     \<and> http_sent (snd (get_authenticator w profile_id api_key oidc_token))
         = http_sent w @ [token_request tok pid ''https://iam.cloud.ibm.com'']
     \<and> fst (get_authenticator w profile_id api_key oidc_token) \<noteq> Inr (IAMAuthenticator k)"
proof (intro impI)
  assume h: "or_getenv w oidc_token ''VERCEL_OIDC_TOKEN'' = Some tok \<and> tok \<noteq> []
      \<and> profile_id = Some pid \<and> pid \<noteq> []"
  then have eq: "get_authenticator w profile_id api_key oidc_token
          = create_iam_authenticator_oidc w tok pid ''https://iam.cloud.ibm.com''"
    by (simp add: get_authenticator_oidc)
  from h have t: "tok \<noteq> []" and p: "pid \<noteq> []" by simp_all
  have transport: "http_post w (token_request tok pid ''https://iam.cloud.ibm.com'') = Inl e
          \<and> exn_kind e = RequestException
        \<longrightarrow> fst (get_authenticator w profile_id api_key oidc_token)
              = Inl (Exn RuntimeError (''Failed to exchange OIDC token with IBM IAM: '' @ str_exn e))"
    unfolding eq using t p
    by (simp add: create_iam_authenticator_oidc_def exchange_handler_def)
  have status: "http_post w (token_request tok pid ''https://iam.cloud.ibm.com'') = Inr response
          \<and> 400 \<le> status_code response \<and> status_code response < 600
        \<longrightarrow> fst (get_authenticator w profile_id api_key oidc_token)
              = Inl (Exn RuntimeError
                       (''Failed to exchange OIDC token with IBM IAM: '' @ error_text response))"
    unfolding eq using t p
    by (simp add: create_iam_authenticator_oidc_def exchange_handler_def raise_for_status_def)
  have body: "http_post w (token_request tok pid ''https://iam.cloud.ibm.com'') = Inr response
          \<and> \<not> (400 \<le> status_code response \<and> status_code response < 600)
          \<and> json_body response = Inr (JObj kvs)
          \<and> \<not> truthy (case map_of kvs ''access_token'' of None \<Rightarrow> JNull | Some v \<Rightarrow> v)
        \<longrightarrow> fst (get_authenticator w profile_id api_key oidc_token)
              = Inl (Exn RuntimeError ''Failed to obtain access token from IBM IAM'')"
    unfolding eq using t p
    by (auto simp: create_iam_authenticator_oidc_def exchange_handler_def raise_for_status_def)
  have sent: "http_sent (snd (get_authenticator w profile_id api_key oidc_token))
         = http_sent w @ [token_request tok pid ''https://iam.cloud.ibm.com'']"
    unfolding eq by (rule oidc_sent [OF t p])
  have never: "fst (get_authenticator w profile_id api_key oidc_token) \<noteq> Inr (IAMAuthenticator k)"
    unfolding eq by (rule oidc_never_api_key)
  from transport status body sent never
  show "(http_post w (token_request tok pid ''https://iam.cloud.ibm.com'') = Inl e
          \<and> exn_kind e = RequestException
        \<longrightarrow> fst (get_authenticator w profile_id api_key oidc_token)
              = Inl (Exn RuntimeError (''Failed to exchange OIDC token with IBM IAM: '' @ str_exn e)))
     \<and> (http_post w (token_request tok pid ''https://iam.cloud.ibm.com'') = Inr response
          \<and> 400 \<le> status_code response \<and> status_code response < 600
        \<longrightarrow> fst (get_authenticator w profile_id api_key oidc_token)
              = Inl (Exn RuntimeError
                       (''Failed to exchange OIDC token with IBM IAM: '' @ error_text response)))
     \<and> (http_post w (token_request tok pid ''https://iam.cloud.ibm.com'') = Inr response
          \<and> \<not> (400 \<le> status_code response \<and> status_code response < 600)
          \<and> json_body response = Inr (JObj kvs)
          \<and> \<not> truthy (case map_of kvs ''access_token'' of None \<Rightarrow> JNull | Some v \<Rightarrow> v)
        \<longrightarrow> fst (get_authenticator w profile_id api_key oidc_token)
              = Inl (Exn RuntimeError ''Failed to obtain access token from IBM IAM''))
     \<and> http_sent (snd (get_authenticator w profile_id api_key oidc_token))
         = http_sent w @ [token_request tok pid ''https://iam.cloud.ibm.com'']
     \<and> fst (get_authenticator w profile_id api_key oidc_token) \<noteq> Inr (IAMAuthenticator k)"
    by (intro conjI)
qed

theorem oidc_exchange_failure_witness:
  "fst (get_authenticator oidc_world (Some ''Profile-1'') (Some ''key'') None)
     = Inl (Exn RuntimeError ''Failed to exchange OIDC token with IBM IAM: connection refused'')
   \<and> fst (get_authenticator
          (oidc_world\<lparr>http_post := (\<lambda>request. Inr \<lparr>status_code = 401,
             error_text = ''401 Client Error'', json_body = Inr (JObj [])\<rparr>)\<rparr>)
          (Some ''Profile-1'') (Some ''key'') None)
     = Inl (Exn RuntimeError ''Failed to exchange OIDC token with IBM IAM: 401 Client Error'')
   \<and> fst (get_authenticator
          (oidc_world\<lparr>http_post := (\<lambda>request. Inr \<lparr>status_code = 200,
             error_text = [], json_body = Inr (JObj [(''expires_in'', JNum 3600)])\<rparr>)\<rparr>)
          (Some ''Profile-1'') (Some ''key'') None)
     = Inl (Exn RuntimeError ''Failed to obtain access token from IBM IAM'')
   \<and> http_sent (snd (get_authenticator oidc_world (Some ''Profile-1'') (Some ''key'') None))
     = [token_request ''oidc'' ''Profile-1'' ''https://iam.cloud.ibm.com'']"
proof -
  let ?w4 = "oidc_world\<lparr>http_post := (\<lambda>request. Inr \<lparr>status_code = 401,
             error_text = ''401 Client Error'', json_body = Inr (JObj [])\<rparr>)\<rparr>"
  let ?w2 = "oidc_world\<lparr>http_post := (\<lambda>request. Inr \<lparr>status_code = 200,
             error_text = [], json_body = Inr (JObj [(''expires_in'', JNum 3600)])\<rparr>)\<rparr>"
  have pre: "\<And>w. environ w = environ oidc_world \<Longrightarrow>
      or_getenv w None ''VERCEL_OIDC_TOKEN'' = Some ''oidc'' \<and> ''oidc'' \<noteq> []
      \<and> Some ''Profile-1'' = Some ''Profile-1'' \<and> ''Profile-1'' \<noteq> []"
    by (simp add: or_getenv_def oidc_world_def)
  have p1: "http_post oidc_world (token_request ''oidc'' ''Profile-1'' ''https://iam.cloud.ibm.com'')
        = Inl (Exn RequestException ''connection refused'')
      \<and> exn_kind (Exn RequestException ''connection refused'') = RequestException"
    by (simp add: oidc_world_def example_world_def)
  note i1 = oidc_exchange_failure [of oidc_world None "''oidc''" "Some ''Profile-1''" "''Profile-1''"
      "Exn RequestException ''connection refused''" "Some ''key''" _ _ "''key''",
      THEN mp, OF pre [of oidc_world, OF refl]]
  from i1 [THEN conjunct1] p1
  have "fst (get_authenticator oidc_world (Some ''Profile-1'') (Some ''key'') None)
     = Inl (Exn RuntimeError (''Failed to exchange OIDC token with IBM IAM: ''
              @ str_exn (Exn RequestException ''connection refused'')))"
    by (rule mp)
  then have a: "fst (get_authenticator oidc_world (Some ''Profile-1'') (Some ''key'') None)
     = Inl (Exn RuntimeError ''Failed to exchange OIDC token with IBM IAM: connection refused'')"
    by simp
  from i1 [THEN conjunct2, THEN conjunct2, THEN conjunct2, THEN conjunct1]
  have d: "http_sent (snd (get_authenticator oidc_world (Some ''Profile-1'') (Some ''key'') None))
     = [token_request ''oidc'' ''Profile-1'' ''https://iam.cloud.ibm.com'']"
    by (simp add: oidc_world_def example_world_def)
  have e4: "environ ?w4 = environ oidc_world" by simp
  have p4: "http_post ?w4 (token_request ''oidc'' ''Profile-1'' ''https://iam.cloud.ibm.com'')
        = Inr \<lparr>status_code = 401, error_text = ''401 Client Error'', json_body = Inr (JObj [])\<rparr>
      \<and> 400 \<le> status_code \<lparr>status_code = 401, error_text = ''401 Client Error'',
                  json_body = Inr (JObj [])\<rparr>
      \<and> status_code \<lparr>status_code = 401, error_text = ''401 Client Error'',
                  json_body = Inr (JObj [])\<rparr> < 600"
    by simp
  from oidc_exchange_failure [of ?w4 None "''oidc''" "Some ''Profile-1''" "''Profile-1''"
      _ "Some ''key''" "\<lparr>status_code = 401, error_text = ''401 Client Error'',
          json_body = Inr (JObj [])\<rparr>" _ "''key''",
      THEN mp, OF pre [of ?w4, OF e4], THEN conjunct2, THEN conjunct1] p4
  have "fst (get_authenticator ?w4 (Some ''Profile-1'') (Some ''key'') None)
     = Inl (Exn RuntimeError (''Failed to exchange OIDC token with IBM IAM: ''
          @ error_text \<lparr>status_code = 401, error_text = ''401 Client Error'',
              json_body = Inr (JObj [])\<rparr>))"
    by (rule mp)
  then have b: "fst (get_authenticator ?w4 (Some ''Profile-1'') (Some ''key'') None)
     = Inl (Exn RuntimeError ''Failed to exchange OIDC token with IBM IAM: 401 Client Error'')"
    by simp
  have e2: "environ ?w2 = environ oidc_world" by simp
  have p2: "http_post ?w2 (token_request ''oidc'' ''Profile-1'' ''https://iam.cloud.ibm.com'')
        = Inr \<lparr>status_code = 200, error_text = [],
                json_body = Inr (JObj [(''expires_in'', JNum 3600)])\<rparr>
      \<and> \<not> (400 \<le> status_code \<lparr>status_code = 200, error_text = [],
                json_body = Inr (JObj [(''expires_in'', JNum 3600)])\<rparr>
           \<and> status_code \<lparr>status_code = 200, error_text = [],
                json_body = Inr (JObj [(''expires_in'', JNum 3600)])\<rparr> < 600)
      \<and> json_body \<lparr>status_code = 200, error_text = [],
                json_body = Inr (JObj [(''expires_in'', JNum 3600)])\<rparr>
          = Inr (JObj [(''expires_in'', JNum 3600)])
      \<and> \<not> truthy (case map_of [(''expires_in'', JNum 3600)] ''access_token'' of
                     None \<Rightarrow> JNull | Some v \<Rightarrow> v)"
    by simp
  from oidc_exchange_failure [of ?w2 None "''oidc''" "Some ''Profile-1''" "''Profile-1''"
      _ "Some ''key''" "\<lparr>status_code = 200, error_text = [],
                json_body = Inr (JObj [(''expires_in'', JNum 3600)])\<rparr>"
      "[(''expires_in'', JNum 3600)]" "''key''",
      THEN mp, OF pre [of ?w2, OF e2], THEN conjunct2, THEN conjunct2, THEN conjunct1] p2
  have c: "fst (get_authenticator ?w2 (Some ''Profile-1'') (Some ''key'') None)
     = Inl (Exn RuntimeError ''Failed to obtain access token from IBM IAM'')"
    by (rule mp)
  from a b c d show ?thesis by blast
qed

text \<open>
  The claim as the specification words it, with every status outside 2xx failing, does
  not hold: a response with status 300 passes \<^verbatim>\<open>raise_for_status\<close>, and when its body
  carries an access token the resolver returns a bearer credential.
\<close>

theorem oidc_non_2xx_counterexample:
  "status_code multiple_choices_response = 300
   \<and> fst (get_authenticator (oidc_world\<lparr>http_post := (\<lambda>request. Inr multiple_choices_response)\<rparr>)
          (Some ''Profile-1'') (Some ''key'') None)
     = Inr (BearerTokenAuthenticator (JStr ''tok''))"
  by (simp add: get_authenticator_def create_iam_authenticator_oidc_def or_getenv_def
        raise_for_status_def multiple_choices_response_def oidc_world_def example_world_def)

section \<open>The storage client and the two credentials\<close>

text \<open>
  C1. The claim does not hold of the code: the uploader's constructor reads
  \<^verbatim>\<open>authenticator.token_manager.apikey\<close>, which only the API-key credential has. For
  every bearer-token credential \<^verbatim>\<open>create_cos_uploader\<close> raises \<^verbatim>\<open>AttributeError\<close>, while
  for every API-key credential it returns an uploader whenever the storage SDK accepts
  the arguments of its client; so a run of \<^verbatim>\<open>main\<close> whose token exchange succeeds
  exits with code 1 right after authenticating.
\<close>

theorem create_cos_uploader_bearer_token:
  "create_cos_uploader w (BearerTokenAuthenticator bearer_token) region bucket_name endpoint
     = Inl (Exn AttributeError ''BearerTokenAuthenticator object has no attribute token_manager'')
   \<and> (cos_client_error w
          \<lparr>ibm_api_key_id = apikey,
            ibm_service_instance_id =
              (case environ w ''IBM_COS_SERVICE_INSTANCE_ID'' of
                 None \<Rightarrow> ''crn:v1:bluemix:public:cloud-object-storage:global:a/:::''
               | Some v \<Rightarrow> v),
            signature_version = ''oauth'',
            endpoint_url = ''https://''
              @ (case endpoint of
                   None \<Rightarrow> ''s3.'' @ region @ ''.cloud-object-storage.appdomain.cloud''
                 | Some e \<Rightarrow> e)\<rparr> = None
      \<longrightarrow> (\<exists>uploader. create_cos_uploader w (IAMAuthenticator apikey) region bucket_name endpoint
             = Inr uploader))
   \<and> (get_authenticator w (cfg_trusted_profile_id (cfg_ibm_cloud config)) None None
          = (Inr (BearerTokenAuthenticator bearer_token), w1)
      \<longrightarrow> main (Inr config) w = (1, w1))"
proof (intro conjI impI)
  show bearer: "create_cos_uploader w (BearerTokenAuthenticator bearer_token) region bucket_name endpoint
     = Inl (Exn AttributeError ''BearerTokenAuthenticator object has no attribute token_manager'')"
    for w region bucket_name endpoint
    by (simp add: create_cos_uploader_def COSUploader_init_def Let_def)
  {
    assume "cos_client_error w
          \<lparr>ibm_api_key_id = apikey,
            ibm_service_instance_id =
              (case environ w ''IBM_COS_SERVICE_INSTANCE_ID'' of
                 None \<Rightarrow> ''crn:v1:bluemix:public:cloud-object-storage:global:a/:::''
               | Some v \<Rightarrow> v),
            signature_version = ''oauth'',
            endpoint_url = ''https://''
              @ (case endpoint of
                   None \<Rightarrow> ''s3.'' @ region @ ''.cloud-object-storage.appdomain.cloud''
                 | Some e \<Rightarrow> e)\<rparr> = None"
    then show "\<exists>uploader. create_cos_uploader w (IAMAuthenticator apikey) region bucket_name endpoint
          = Inr uploader"
      by (simp add: create_cos_uploader_def COSUploader_init_def Let_def)
  }
  assume "get_authenticator w (cfg_trusted_profile_id (cfg_ibm_cloud config)) None None
          = (Inr (BearerTokenAuthenticator bearer_token), w1)"
  then show "main (Inr config) w = (1, w1)"
    by (simp add: main_def bearer)
qed

theorem create_cos_uploader_bearer_token_witness:
  "get_authenticator token_world (Some ''Profile-1'') None None
     = (Inr (BearerTokenAuthenticator (JStr ''tok'')),
        token_world\<lparr>http_sent := [token_request ''oidc'' ''Profile-1'' ''https://iam.cloud.ibm.com'']\<rparr>)
   \<and> create_cos_uploader token_world (BearerTokenAuthenticator (JStr ''tok'')) ''us-south''
        ''bucket'' None
     = Inl (Exn AttributeError ''BearerTokenAuthenticator object has no attribute token_manager'')
   \<and> (\<exists>uploader. create_cos_uploader token_world (IAMAuthenticator ''key'') ''us-south''
        ''bucket'' None = Inr uploader)
   \<and> main (Inr profile_config) token_world
     = (1, token_world\<lparr>http_sent := [token_request ''oidc'' ''Profile-1'' ''https://iam.cloud.ibm.com'']\<rparr>)"
proof -
  let ?w1 = "token_world\<lparr>http_sent := [token_request ''oidc'' ''Profile-1'' ''https://iam.cloud.ibm.com'']\<rparr>"
  have auth: "get_authenticator token_world (Some ''Profile-1'') None None
     = (Inr (BearerTokenAuthenticator (JStr ''tok'')), ?w1)"
    by (simp add: get_authenticator_def create_iam_authenticator_oidc_def or_getenv_def
          raise_for_status_def token_world_def oidc_world_def example_world_def)
  have prof: "cfg_trusted_profile_id (cfg_ibm_cloud profile_config) = Some ''Profile-1''"
    by (simp add: profile_config_def)
  note inst = create_cos_uploader_bearer_token [of token_world "JStr ''tok''" "''us-south''"
      "''bucket''" None "''key''" profile_config ?w1]
  from inst [THEN conjunct2, THEN conjunct2] auth prof
  have m: "main (Inr profile_config) token_world = (1, ?w1)" by simp
  have accepted: "cos_client_error token_world
          \<lparr>ibm_api_key_id = ''key'',
            ibm_service_instance_id =
              (case environ token_world ''IBM_COS_SERVICE_INSTANCE_ID'' of
                 None \<Rightarrow> ''crn:v1:bluemix:public:cloud-object-storage:global:a/:::''
               | Some v \<Rightarrow> v),
            signature_version = ''oauth'',
            endpoint_url = ''https://''
              @ (case None of
                   None \<Rightarrow> ''s3.'' @ ''us-south'' @ ''.cloud-object-storage.appdomain.cloud''
                 | Some e \<Rightarrow> e)\<rparr> = None"
    by (simp add: token_world_def oidc_world_def example_world_def)
  from inst [THEN conjunct2, THEN conjunct1] accepted
  have k: "\<exists>uploader. create_cos_uploader token_world (IAMAuthenticator ''key'') ''us-south''
        ''bucket'' None = Inr uploader"
    by (rule mp)
  from auth inst [THEN conjunct1] k m show ?thesis by blast
qed

section \<open>The pipeline and the local archive\<close>

lemma upload_file_fs: "upload_file self w file_path object_name = (r, w') \<Longrightarrow> fs w' = fs w"
  unfolding upload_file_def Let_def
  by (auto split: option.splits node.splits)

lemma oidc_fs:
  "fs (snd (create_iam_authenticator_oidc w oidc_token profile_id iam_endpoint)) = fs w"
  unfolding create_iam_authenticator_oidc_def Let_def
  by (simp split: sum.splits option.splits)

lemma get_authenticator_fs:
  "fs (snd (get_authenticator w profile_id api_key oidc_token)) = fs w"
  unfolding get_authenticator_def Let_def by (simp add: oidc_fs)

lemma make_dirs_keeps:
  "make_dirs f ds = Inr f' \<Longrightarrow> f p \<noteq> None \<Longrightarrow> f' p \<noteq> None"
proof (induction ds arbitrary: f)
  case Nil
  then show ?case by simp
next
  case (Cons d ds)
  show ?case
  proof (cases "f d")
    case None
    with Cons.prems have "make_dirs (f(d \<mapsto> Dir [])) ds = Inr f'" by simp
    moreover from Cons.prems(2) have "(f(d \<mapsto> Dir [])) p \<noteq> None" by simp
    ultimately show ?thesis by (rule Cons.IH)
  next
    case (Some n)
    with Cons.prems have "make_dirs f ds = Inr f'"
      by (auto split: option.splits node.splits)
    from this Cons.prems(2) show ?thesis by (rule Cons.IH)
  qed
qed

lemma create_source_archive_keeps:
  assumes "create_source_archive self w source_dir output_path exclude_patterns = (r, w')"
    and "fs w p \<noteq> None"
  shows "fs w' p \<noteq> None"
  using assms unfolding create_source_archive_def Let_def utcnow_def
  by (auto split: option.splits sum.splits node.splits prod.splits dest: make_dirs_keeps)

lemma upload_source_code_keeps:
  assumes "upload_source_code self w source_dir deployment_id exclude_patterns = (r, w')"
    and "fs w p \<noteq> None"
  shows "fs w' p \<noteq> None"
proof -
  obtain r2 w2 where arch: "create_source_archive self (w\<lparr>clock_reads := Suc (clock_reads w)\<rparr>)
      source_dir None exclude_patterns = (r2, w2)"
    by (cases "create_source_archive self (w\<lparr>clock_reads := Suc (clock_reads w)\<rparr>)
      source_dir None exclude_patterns")
  from assms(2) have "fs (w\<lparr>clock_reads := Suc (clock_reads w)\<rparr>) p \<noteq> None" by simp
  with arch have k2: "fs w2 p \<noteq> None" by (rule create_source_archive_keeps)
  show ?thesis
  proof (cases r2)
    case (Inl e)
    with assms(1) arch have "w' = w2"
      by (simp add: upload_source_code_def utcnow_def)
    with k2 show ?thesis by simp
  next
    case (Inr zip_path)
    obtain r3 w3 where up: "upload_file self w2 zip_path
        (Some (''deployments/'' @ deployment_id @ ''/'' @ strftime (clock w (clock_reads w))
                 @ ''_source.zip'')) = (r3, w3)"
      by (cases "upload_file self w2 zip_path
        (Some (''deployments/'' @ deployment_id @ ''/'' @ strftime (clock w (clock_reads w))
                 @ ''_source.zip''))")
    with assms(1) arch Inr have "w' = w3"
      by (auto simp: upload_source_code_def utcnow_def split: sum.splits)
    with upload_file_fs [OF up] k2 show ?thesis by simp
  qed
qed

lemma main_failure_keeps:
  assumes "main step1 w = (code, w')" and "code \<noteq> 0" and "fs w p \<noteq> None"
  shows "fs w' p \<noteq> None"
proof (cases step1)
  case (Inl e)
  with assms show ?thesis by (simp add: main_def)
next
  case (Inr config)
  obtain ra w1 where auth: "get_authenticator w (cfg_trusted_profile_id (cfg_ibm_cloud config))
      None None = (ra, w1)"
    by (cases "get_authenticator w (cfg_trusted_profile_id (cfg_ibm_cloud config)) None None")
  from get_authenticator_fs [of w "cfg_trusted_profile_id (cfg_ibm_cloud config)" None None] auth
  have f1: "fs w1 = fs w" by simp
  show ?thesis
  proof (cases ra)
    case (Inl e)
    with assms Inr auth f1 show ?thesis by (simp add: main_def)
  next
    case a: (Inr authenticator)
    show ?thesis
    proof (cases "create_cos_uploader w1 authenticator (cfg_region (cfg_ibm_cloud config))
                       (cfg_cos_bucket (cfg_ibm_cloud config))
                       (cfg_cos_endpoint (cfg_ibm_cloud config))")
      case (Inl e)
      with assms Inr auth a f1 show ?thesis by (simp add: main_def)
    next
      case u: (Inr cos_uploader)
      obtain r2 w2 where run: "upload_source_code cos_uploader w1 (cfg_source_dir config)
                            (cfg_deployment_id (cfg_vercel config)) None = (r2, w2)"
        by (cases "upload_source_code cos_uploader w1 (cfg_source_dir config)
                            (cfg_deployment_id (cfg_vercel config)) None")
      from assms(3) f1 have "fs w1 p \<noteq> None" by simp
      with run have k2: "fs w2 p \<noteq> None" by (rule upload_source_code_keeps)
      from assms(1,2) Inr auth a u run have "w' = w2"
        by (auto simp: main_def split: sum.splits prod.splits if_splits)
      with k2 show ?thesis by simp
    qed
  qed
qed

lemma example_pipeline:
  assumes "w = api_key_world\<lparr>cos_put_error := put\<rparr>"
  shows "get_authenticator w (cfg_trusted_profile_id (cfg_ibm_cloud example_config)) None None
           = (Inr (IAMAuthenticator ''key''), w)"
    and "create_cos_uploader w (IAMAuthenticator ''key'') (cfg_region (cfg_ibm_cloud example_config))
            (cfg_cos_bucket (cfg_ibm_cloud example_config))
            (cfg_cos_endpoint (cfg_ibm_cloud example_config)) = Inr example_uploader"
    and "create_source_archive example_uploader (snd (utcnow w)) (cfg_source_dir example_config)
            None None
           = (Inr ''/tmp/source_20240102_030405.zip'',
              w\<lparr>clock_reads := 2,
                  fs := (fs w)(''/tmp/source_20240102_030405.zip''
                           \<mapsto> File (ZipArchive [(''a.txt'', Raw ''hello'')]))\<rparr>)"
    and "strftime (fst (utcnow w)) = ''20240102_030405''"
proof -
  show "get_authenticator w (cfg_trusted_profile_id (cfg_ibm_cloud example_config)) None None
           = (Inr (IAMAuthenticator ''key''), w)"
    by (simp add: assms get_authenticator_def create_iam_authenticator_def or_getenv_def
          new_IAMAuthenticator_def has_bad_first_or_last_char_def example_config_def
          api_key_world_def)
  show "create_cos_uploader w (IAMAuthenticator ''key'') (cfg_region (cfg_ibm_cloud example_config))
            (cfg_cos_bucket (cfg_ibm_cloud example_config))
            (cfg_cos_endpoint (cfg_ibm_cloud example_config)) = Inr example_uploader"
    by (simp add: assms create_cos_uploader_def COSUploader_init_def Let_def example_config_def
          api_key_world_def example_world_def example_uploader_def)
  have look: "lookup (snd (utcnow w)) (Path ''src'') = Some example_tree"
    by (simp add: assms utcnow_def lookup_def Path_def str_def api_key_world_def example_world_def
          example_tree_def)
  show "strftime (fst (utcnow w)) = ''20240102_030405''"
    by (simp add: assms utcnow_def api_key_world_def example_world_def example_strftime)
  show "create_source_archive example_uploader (snd (utcnow w)) (cfg_source_dir example_config)
            None None
           = (Inr ''/tmp/source_20240102_030405.zip'',
              w\<lparr>clock_reads := 2,
                  fs := (fs w)(''/tmp/source_20240102_030405.zip''
                           \<mapsto> File (ZipArchive [(''a.txt'', Raw ''hello'')]))\<rparr>)"
    unfolding create_source_archive_def Let_def
    by (simp add: example_config_def look example_items)
       (simp add: assms utcnow_def api_key_world_def example_world_def example_strftime Path_def
          str_def parent_def dir_chain_def opened_tree_def self_entry_def example_config_def
          example_items)
qed

text \<open>
  C9. Once the archive has been written, the upload never touches the file system: the
  archive is on disk after the upload whether it failed or not. When the upload
  fails, \<^verbatim>\<open>main\<close> exits with code 1 in that very world, so the archive is still there.
  When it succeeds, \<^verbatim>\<open>main\<close> exits with code 0 and has removed the archive exactly when
  the cleanup flag is set. And whenever \<^verbatim>\<open>main\<close> exits with a non-zero code, every path
  that existed before still exists: nothing is deleted on an error path.
\<close>

theorem archive_kept_on_failure:
  "(get_authenticator w (cfg_trusted_profile_id (cfg_ibm_cloud config)) None None = (Inr a, w1)
      \<and> create_cos_uploader w1 a (cfg_region (cfg_ibm_cloud config))
            (cfg_cos_bucket (cfg_ibm_cloud config)) (cfg_cos_endpoint (cfg_ibm_cloud config)) = Inr u
      \<and> create_source_archive u (snd (utcnow w1)) (cfg_source_dir config) None None
            = (Inr zip_path, w2)
      \<and> upload_file u w2 zip_path
            (Some (''deployments/'' @ cfg_deployment_id (cfg_vercel config) @ ''/''
                     @ strftime (fst (utcnow w1)) @ ''_source.zip'')) = (r, w3)
    \<longrightarrow> (\<exists>entries. fs w3 zip_path = Some (File (ZipArchive entries)))
        \<and> (r = Inl e \<longrightarrow> main (Inr config) w = (1, w3))
        \<and> (r = Inr cos_uri \<longrightarrow>
              main (Inr config) w
                = (0, if cfg_cleanup_artifacts config then w3\<lparr>fs := (fs w3)(zip_path := None)\<rparr>
                      else w3)))
   \<and> (main step1 w' = (code, w'') \<and> code \<noteq> 0 \<and> fs w' p \<noteq> None \<longrightarrow> fs w'' p \<noteq> None)"
proof (intro conjI impI)
  assume h: "get_authenticator w (cfg_trusted_profile_id (cfg_ibm_cloud config)) None None = (Inr a, w1)
      \<and> create_cos_uploader w1 a (cfg_region (cfg_ibm_cloud config))
            (cfg_cos_bucket (cfg_ibm_cloud config)) (cfg_cos_endpoint (cfg_ibm_cloud config)) = Inr u
      \<and> create_source_archive u (snd (utcnow w1)) (cfg_source_dir config) None None
            = (Inr zip_path, w2)
      \<and> upload_file u w2 zip_path
            (Some (''deployments/'' @ cfg_deployment_id (cfg_vercel config) @ ''/''
                     @ strftime (fst (utcnow w1)) @ ''_source.zip'')) = (r, w3)"
  then have auth: "get_authenticator w (cfg_trusted_profile_id (cfg_ibm_cloud config)) None None
        = (Inr a, w1)"
    and up: "create_cos_uploader w1 a (cfg_region (cfg_ibm_cloud config))
            (cfg_cos_bucket (cfg_ibm_cloud config)) (cfg_cos_endpoint (cfg_ibm_cloud config)) = Inr u"
    and arch: "create_source_archive u (snd (utcnow w1)) (cfg_source_dir config) None None
            = (Inr zip_path, w2)"
    and put: "upload_file u w2 zip_path
            (Some (''deployments/'' @ cfg_deployment_id (cfg_vercel config) @ ''/''
                     @ strftime (fst (utcnow w1)) @ ''_source.zip'')) = (r, w3)"
    by simp_all
  from create_source_archive_written [OF arch]
  obtain entries where written: "fs w2 zip_path = Some (File (ZipArchive entries))" by blast
  from upload_file_fs [OF put] have same: "fs w3 = fs w2" .
  from written same have kept: "fs w3 zip_path = Some (File (ZipArchive entries))" by simp
  from create_source_archive_default [OF arch]
  obtain t where zp: "zip_path = ''/tmp/source_'' @ strftime t @ ''.zip''" by blast
  then have norm: "str (Path zip_path) = zip_path" by (simp only: str_Path_tmp_zip)
  have run: "upload_source_code u w1 (cfg_source_dir config) (cfg_deployment_id (cfg_vercel config)) None
      = (case r of Inl e \<Rightarrow> (Inl e, w3) | Inr cos_uri \<Rightarrow> (Inr (cos_uri, zip_path), w3))"
    using arch put unfolding upload_source_code_def utcnow_def Let_def
    by (simp split: sum.splits)
  show "\<exists>entries. fs w3 zip_path = Some (File (ZipArchive entries))"
    using kept by blast
  {
    assume "r = Inl e"
    with auth up run show "main (Inr config) w = (1, w3)"
      by (simp add: main_def)
  }
  {
    assume "r = Inr cos_uri"
    with auth up run kept norm
    show "main (Inr config) w
                = (0, if cfg_cleanup_artifacts config then w3\<lparr>fs := (fs w3)(zip_path := None)\<rparr>
                      else w3)"
      by (simp add: main_def unlink_def)
  }
next
  assume "main step1 w' = (code, w'') \<and> code \<noteq> 0 \<and> fs w' p \<noteq> None"
  then show "fs w'' p \<noteq> None"
    using main_failure_keeps by blast
qed

theorem archive_kept_on_failure_witness:
  "main (Inr example_config) refusing_store_world
     = (1, refusing_store_world\<lparr>clock_reads := 2,
             fs := (fs refusing_store_world)(''/tmp/source_20240102_030405.zip''
                      \<mapsto> File (ZipArchive [(''a.txt'', Raw ''hello'')]))\<rparr>)
   \<and> fs refusing_store_world ''src'' \<noteq> None
   \<and> fs (snd (main (Inr example_config) refusing_store_world)) ''src'' \<noteq> None
   \<and> fst (main (Inr example_config) api_key_world) = 0
   \<and> fs (snd (main (Inr example_config) api_key_world)) ''/tmp/source_20240102_030405.zip'' = None"
proof -
  let ?zp = "''/tmp/source_20240102_030405.zip''"
  let ?key = "''deployments/'' @ cfg_deployment_id (cfg_vercel example_config) @ ''/''
                @ strftime (fst (utcnow refusing_store_world)) @ ''_source.zip''"
  let ?w2 = "refusing_store_world\<lparr>clock_reads := 2,
             fs := (fs refusing_store_world)(?zp \<mapsto> File (ZipArchive [(''a.txt'', Raw ''hello'')]))\<rparr>"
  have rw: "refusing_store_world
      = api_key_world\<lparr>cos_put_error := (\<lambda>bucket key. Some (Exn OtherException ''quota exceeded''))\<rparr>"
    by (simp add: refusing_store_world_def)
  note steps = example_pipeline [OF rw]
  have put: "upload_file example_uploader ?w2 ?zp (Some ?key)
      = (Inl (Exn RuntimeError ''Failed to upload file to COS: quota exceeded''), ?w2)"
    by (simp add: upload_file_def Let_def lookup_def Path_def str_def upload_error_def
          refusing_store_world_def)
  note inst = archive_kept_on_failure [of refusing_store_world example_config
      "IAMAuthenticator ''key''" refusing_store_world example_uploader ?zp ?w2
      "Inl (Exn RuntimeError ''Failed to upload file to COS: quota exceeded'')" ?w2
      "Exn RuntimeError ''Failed to upload file to COS: quota exceeded''" "[]"
      "Inr example_config" refusing_store_world 1 ?w2 "''src''"]
  from inst [THEN conjunct1] steps(1,2,3) put
  have "main (Inr example_config) refusing_store_world = (1, ?w2)"
    by blast
  then have a: "main (Inr example_config) refusing_store_world = (1, ?w2)" .
  have b: "fs refusing_store_world ''src'' \<noteq> None"
    by (simp add: refusing_store_world_def api_key_world_def example_world_def)
  from inst [THEN conjunct2] a b
  have c: "fs ?w2 ''src'' \<noteq> None" by simp
  let ?v2 = "api_key_world\<lparr>clock_reads := 2,
             fs := (fs api_key_world)(?zp \<mapsto> File (ZipArchive [(''a.txt'', Raw ''hello'')]))\<rparr>"
  let ?v3 = "?v2\<lparr>cos_objects := (cos_objects ?v2)((''bucket'', ''deployments/dep123/20240102_030405_source.zip'')
                 \<mapsto> ZipArchive [(''a.txt'', Raw ''hello'')])\<rparr>"
  let ?key' = "''deployments/'' @ cfg_deployment_id (cfg_vercel example_config) @ ''/''
                @ strftime (fst (utcnow api_key_world)) @ ''_source.zip''"
  have rv: "api_key_world = api_key_world\<lparr>cos_put_error := cos_put_error api_key_world\<rparr>"
    by simp
  note steps' = example_pipeline [OF rv]
  have key': "?key' = ''deployments/dep123/20240102_030405_source.zip''"
    by (simp add: steps'(4) example_config_def)
  have put': "upload_file example_uploader ?v2 ?zp (Some ?key')
      = (Inr ''cos://bucket/deployments/dep123/20240102_030405_source.zip'', ?v3)"
    unfolding key'
    by (simp add: upload_file_def Let_def lookup_def Path_def str_def
          example_uploader_def api_key_world_def example_world_def)
  from archive_kept_on_failure [of api_key_world example_config
      "IAMAuthenticator ''key''" api_key_world example_uploader ?zp ?v2
      "Inr ''cos://bucket/deployments/dep123/20240102_030405_source.zip''" ?v3
      _ "''cos://bucket/deployments/dep123/20240102_030405_source.zip''", THEN conjunct1]
    steps'(1,2,3) put'
  have "main (Inr example_config) api_key_world
      = (0, if cfg_cleanup_artifacts example_config then ?v3\<lparr>fs := (fs ?v3)(?zp := None)\<rparr> else ?v3)"
    by blast
  then have d: "fst (main (Inr example_config) api_key_world) = 0"
    and e: "fs (snd (main (Inr example_config) api_key_world)) ?zp = None"
    by (simp_all add: example_config_def)
  from a b c d e show ?thesis by simp
qed

section \<open>Error classes\<close>




end
